theory Spec2Isabelle
  imports Complex_Main "HOL-Library.Multiset" "HOL-Library.Log_Nat"
begin

section \<open>JavaScript primitives used by the request handlers\<close>

text \<open>
  Query-string parameters (\<open>req.query.x\<close>) are strings or \<open>undefined\<close>: a
  \<open>string option\<close> (a parameter given more than once is not modelled).
\<close>

subsection \<open>Numbers\<close>

text \<open>
  A JavaScript number is an IEEE 754 double: \<open>NaN\<close>, one of the two infinities, or a
  finite value, held here as the rational it denotes. The sign of a zero is not kept: no
  handler divides by zero, and a zero prints and tests the same with either sign.
\<close>

datatype number = NaN | Finite rat | PosInfinity | NegInfinity

text \<open>
  The double nearest to a rational. For a positive \<open>a\<close>, \<open>floorLog2 a\<close> is the
  exponent \<open>e\<close> with \<open>2 ^ e \<le> a < 2 ^ (e + 1)\<close>. A double has 53 significant bits: its
  last bit is worth \<open>2 ^ (e - 52)\<close>, where \<open>e\<close> is at least -1022, the smallest
  exponent of a normal double. The value is rounded to a multiple of that, a tie to the
  even multiple, and what rounds to \<open>2 ^ 1024\<close> or more is an infinity.
\<close>

definition floorLog2 :: "rat \<Rightarrow> int" where
  "floorLog2 a =
     (let k = bitlen (fst (quotient_of a)) - bitlen (snd (quotient_of a))
      in if 2 powi k \<le> a then k else k - 1)"

definition roundHalfEven :: "rat \<Rightarrow> int" where
  "roundHalfEven x =
     (let f = \<lfloor>x\<rfloor>; d = x - of_int f
      in if d < 1 / 2 then f else if 1 / 2 < d then f + 1 else if even f then f else f + 1)"

definition roundToDouble :: "rat \<Rightarrow> number" where
  "roundToDouble x =
     (if x = 0 then Finite 0
      else (let a = \<bar>x\<bar>;
                u = 2 powi (max (floorLog2 a) (- 1022) - 52);
                r = of_int (roundHalfEven (a / u)) * u
            in if 1024 \<le> floorLog2 r then (if 0 < x then PosInfinity else NegInfinity)
               else Finite (if 0 < x then r else - r)))"

text \<open>
  \<open>x - y\<close>, \<open>x * y\<close>, \<open>x / y\<close> and \<open>Math.ceil(x)\<close>: the exact result, rounded, and
  the rules of IEEE 754 for \<open>NaN\<close> and the infinities. The ceiling of a double is a
  double.
\<close>

fun Number_sub :: "number \<Rightarrow> number \<Rightarrow> number" where
  "Number_sub (Finite a) (Finite b) = roundToDouble (a - b)"
| "Number_sub NaN y = NaN"
| "Number_sub x NaN = NaN"
| "Number_sub (Finite a) y = (if y = PosInfinity then NegInfinity else PosInfinity)"
| "Number_sub x (Finite b) = x"
| "Number_sub x y = (if x = y then NaN else x)"

fun Number_mul :: "number \<Rightarrow> number \<Rightarrow> number" where
  "Number_mul (Finite a) (Finite b) = roundToDouble (a * b)"
| "Number_mul NaN y = NaN"
| "Number_mul x NaN = NaN"
| "Number_mul (Finite a) y =
     (if a = 0 then NaN else if (0 < a) = (y = PosInfinity) then PosInfinity else NegInfinity)"
| "Number_mul x (Finite b) =
     (if b = 0 then NaN else if (0 < b) = (x = PosInfinity) then PosInfinity else NegInfinity)"
| "Number_mul x y = (if x = y then PosInfinity else NegInfinity)"

fun Number_div :: "number \<Rightarrow> number \<Rightarrow> number" where
  "Number_div (Finite a) (Finite b) =
     (if b = 0 then (if a = 0 then NaN else if 0 < a then PosInfinity else NegInfinity)
      else roundToDouble (a / b))"
| "Number_div NaN y = NaN"
| "Number_div x NaN = NaN"
| "Number_div (Finite a) y = Finite 0"
| "Number_div x (Finite b) =
     (if (0 \<le> b) = (x = PosInfinity) then PosInfinity else NegInfinity)"
| "Number_div x y = NaN"

fun Math_ceil :: "number \<Rightarrow> number" where
  "Math_ceil (Finite a) = Finite (of_int \<lceil>a\<rceil>)"
| "Math_ceil x = x"

text \<open>\<open>x < 0\<close> and \<open>-x\<close>.\<close>

fun Number_negative :: "number \<Rightarrow> bool" where
  "Number_negative (Finite a) = (a < 0)"
| "Number_negative NegInfinity = True"
| "Number_negative x = False"

fun Number_neg :: "number \<Rightarrow> number" where
  "Number_neg (Finite a) = Finite (- a)"
| "Number_neg PosInfinity = NegInfinity"
| "Number_neg NegInfinity = PosInfinity"
| "Number_neg NaN = NaN"

subsection \<open>Strings\<close>

definition isWhitespace :: "char \<Rightarrow> bool" where
  "isWhitespace c = (c \<in> set [CHR '' '', CHR 0x09, CHR 0x0A, CHR 0x0B, CHR 0x0C, CHR 0x0D])"

text \<open>\<open>String.prototype.trim\<close>, also the setter behind \<open>trim: true\<close> of a schema path.\<close>

definition trim :: "string \<Rightarrow> string" where
  "trim s = rev (dropWhile isWhitespace (rev (dropWhile isWhitespace s)))"

text \<open>The value of a digit in a radix up to 16; \<open>None\<close> when the character is no digit.\<close>

definition digitValue :: "char \<Rightarrow> nat option" where
  "digitValue c =
     (case map_of (zip ''0123456789abcdef'' [0 ..< 16]) c of
        Some v \<Rightarrow> Some v
      | None \<Rightarrow> map_of (zip ''ABCDEF'' [10 ..< 16]) c)"

definition isDigitIn :: "nat \<Rightarrow> char \<Rightarrow> bool" where
  "isDigitIn radix c = (case digitValue c of None \<Rightarrow> False | Some v \<Rightarrow> v < radix)"

definition digitsValue :: "nat \<Rightarrow> string \<Rightarrow> int" where
  "digitsValue radix ds =
     foldl (\<lambda>acc c. int radix * acc + (case digitValue c of None \<Rightarrow> 0 | Some v \<Rightarrow> int v))
       0 ds"

text \<open>
  \<open>parseInt(v, radix)\<close>: leading white space is skipped, one sign is read, then the
  longest prefix of digits; the result is \<open>NaN\<close> when there is no digit or \<open>v\<close> is
  undefined, and otherwise the double nearest to the integer the digits denote. Without
  a radix (\<open>parseInt(v)\<close>) a leading \<open>0x\<close> selects radix 16, otherwise the radix is 10.
\<close>

definition stripHexPrefix :: "string \<Rightarrow> string option" where
  "stripHexPrefix s =
     (case s of
        a # b # rest \<Rightarrow>
          (if a = CHR ''0'' \<and> (b = CHR ''x'' \<or> b = CHR ''X'') then Some rest else None)
      | _ \<Rightarrow> None)"

definition parseInt :: "string option \<Rightarrow> nat option \<Rightarrow> number" where
  "parseInt v radix =
     (case v of
        None \<Rightarrow> NaN
      | Some s \<Rightarrow>
          (let t = dropWhile isWhitespace s;
               neg = (case t of c # _ \<Rightarrow> c = CHR ''-'' | [] \<Rightarrow> False);
               u = (case t of
                      c # r \<Rightarrow> (if c = CHR ''-'' \<or> c = CHR ''+'' then r else t)
                    | [] \<Rightarrow> []);
               hex = (case radix of None \<Rightarrow> stripHexPrefix u | Some r \<Rightarrow> None);
               base = (case radix of
                         Some r \<Rightarrow> r
                       | None \<Rightarrow> (case hex of Some _ \<Rightarrow> 16 | None \<Rightarrow> 10));
               w = (case hex of Some rest \<Rightarrow> rest | None \<Rightarrow> u);
               ds = takeWhile (isDigitIn base) w
           in if ds = [] then NaN
              else roundToDouble
                     (of_int ((if neg then - 1 else 1) * digitsValue base ds))))"

text \<open>\<open>n || d\<close> for a number \<open>n\<close>: \<open>NaN\<close> and \<open>0\<close> are falsy.\<close>

definition orDefault :: "number \<Rightarrow> number \<Rightarrow> number" where
  "orDefault n d = (if n = NaN \<or> n = Finite 0 then d else n)"

text \<open>\<open>if (req.query.x)\<close>: the parameter when it is a non-empty string.\<close>

definition given :: "string option \<Rightarrow> string option" where
  "given v = (case v of None \<Rightarrow> None | Some s \<Rightarrow> (if s = [] then None else Some s))"

text \<open>\<open>messages.join(sep)\<close>.\<close>

fun joinWith :: "string \<Rightarrow> string list \<Rightarrow> string" where
  "joinWith sep [] = []"
| "joinWith sep [x] = x"
| "joinWith sep (x # y # ys) = x @ sep @ joinWith sep (y # ys)"

section \<open>Identifiers\<close>

text \<open>
  An ObjectId is written as 24 hexadecimal characters (the pattern of
  \<open>validateParams\<close> and of the validators). Casting a string to an ObjectId fails
  (Mongoose's \<open>CastError\<close>) on any other string; two spellings that differ in letter case
  are the same identifier, so the cast normalises to lower case.
\<close>

type_synonym oid = string

definition isHexChar :: "char \<Rightarrow> bool" where
  "isHexChar c = (c \<in> set ''0123456789abcdefABCDEF'')"

definition toLowerHex :: "char \<Rightarrow> char" where
  "toLowerHex c = (case map_of (zip ''ABCDEF'' ''abcdef'') c of Some l \<Rightarrow> l | None \<Rightarrow> c)"

definition matchesObjectIdPattern :: "string \<Rightarrow> bool" where
  "matchesObjectIdPattern s = (length s = 24 \<and> list_all isHexChar s)"

definition castObjectId :: "string \<Rightarrow> oid option" where
  "castObjectId s = (if matchesObjectIdPattern s then Some (map toLowerHex s) else None)"

section \<open>Data model\<close>

text \<open>
  The documents of the three collections the review subsystem touches. A review and an
  author have every path their schema declares; \<open>rid\<close>, \<open>b_id\<close> and \<open>a_id\<close> are
  the \<open>_id\<close> of a document. Dates are milliseconds. An optional path that is not set
  is \<open>None\<close>.
\<close>

record review =
  rid :: oid
  title :: string
  content :: string
  rating :: rat
  book :: "oid option"
  author :: "oid option"
  reviewer :: oid
  helpful :: rat
  status :: string
  moderatedBy :: "oid option"
  moderatedAt :: "int option"
  moderationReason :: "string option"
  createdAt :: int
  updatedAt :: int

text \<open>
  \<open>bookSchema\<close> declares \<open>averageRating\<close> and \<open>ratingCount\<close> (both default 0) and has
  \<open>timestamps: true\<close>. Of its other paths a book keeps the title and the author; the
  review subsystem reads and writes none of them.
\<close>

record book_doc =
  b_id :: oid
  b_title :: string
  b_author :: oid
  averageRating :: rat
  ratingCount :: nat
  b_createdAt :: int
  b_updatedAt :: int

text \<open>
  \<open>authorSchema\<close> declares no rating path at all; it has \<open>timestamps: true\<close>, which
  adds \<open>createdAt\<close> and \<open>updatedAt\<close>.
\<close>

record award =
  award_name :: string
  award_year :: rat
  award_description :: "string option"

record social_media =
  twitter :: "string option"
  facebook :: "string option"
  instagram :: "string option"
  linkedin :: "string option"

record author_doc =
  a_id :: oid
  firstName :: string
  lastName :: string
  penName :: "string option"
  bio :: "string option"
  birthDate :: "int option"
  deathDate :: "int option"
  nationality :: "string option"
  website :: "string option"
  email :: "string option"
  phone :: "string option"
  profileImage :: "string option"
  genres :: "string list"
  languages :: "string list"
  awards :: "award list"
  socialMedia :: social_media
  booksPublished :: rat
  a_status :: string
  createdBy :: "oid option"
  a_createdAt :: int
  a_updatedAt :: int

text \<open>The store, and the lines written with \<open>console.error\<close>.\<close>

record db =
  reviews :: "review list"
  books :: "book_doc list"
  authors :: "author_doc list"
  console :: "string list"

text \<open>What a storage call can throw or reject with.\<close>

datatype error =
    CastError
  | ValidationError "string list"
  | DuplicateKey
  | SyntaxError
  | StorageError

text \<open>
  Storage failures of the rating recomputation are not decided by the program: they are
  an input of the model. A recomputation can fail in its aggregation or in its write.
\<close>

datatype fault = NoFault | AggregateRejects | UpdateRejects

text \<open>
  What a request sees of its environment: the connection state
  (\<open>mongoose.connection.readyState\<close>, 1 is connected), the clock, the identifier the
  store gives the next inserted document, and the storage faults.
\<close>

record env =
  readyState :: nat
  now :: int
  newId :: oid
  bookFault :: fault
  authorFault :: fault

text \<open>
  The JSON bodies the handlers send, and \<open>res.status(n).json(body)\<close>: a page
  (\<open>count\<close>, \<open>pagination\<close>, \<open>data\<close> and an optional \<open>message\<close>), a listing without
  pagination, one document (\<open>None\<close> is \<open>data: null\<close>), the empty \<open>data: {}\<close> of a
  deletion with its message, and \<open>success: false\<close> with its \<open>error\<close>.
\<close>

record pagination =
  p_current :: number
  p_total :: number
  p_count :: nat

datatype 'a payload =
    Page nat pagination "'a list" "string option"
  | Listing nat "'a list" "string option"
  | Item "'a option" "string option"
  | Emptied string
  | Failure string

datatype 'a response = Response nat "'a payload"

definition serverError :: "'a response" where
  "serverError = Response 500 (Failure ''Server Error'')"

text \<open>
  The \<open>catch\<close> blocks. Each is a chain of tests on the error that ends in the 500
  response; a handler's chain is written with the three tests below, in the order of its
  source: \<open>error.name === 'CastError'\<close> (404 with the handler's message),
  \<open>error.code === 11000\<close> (400 with the handler's message) and
  \<open>error.name === 'ValidationError'\<close> (400 with the messages joined).
\<close>

definition otherwise500 :: "error \<Rightarrow> 'a response" where
  "otherwise500 err = serverError"

definition onCastError :: "string \<Rightarrow> (error \<Rightarrow> 'a response) \<Rightarrow> error \<Rightarrow> 'a response" where
  "onCastError notFound rest err =
     (case err of CastError \<Rightarrow> Response 404 (Failure notFound) | _ \<Rightarrow> rest err)"

definition onDuplicateKey :: "string \<Rightarrow> (error \<Rightarrow> 'a response) \<Rightarrow> error \<Rightarrow> 'a response" where
  "onDuplicateKey duplicate rest err =
     (case err of DuplicateKey \<Rightarrow> Response 400 (Failure duplicate) | _ \<Rightarrow> rest err)"

definition onValidationError :: "(error \<Rightarrow> 'a response) \<Rightarrow> error \<Rightarrow> 'a response" where
  "onValidationError rest err =
     (case err of
        ValidationError messages \<Rightarrow> Response 400 (Failure (joinWith ''. '' messages))
      | _ \<Rightarrow> rest err)"

section \<open>The review collection: queries\<close>

text \<open>
  The \<open>query\<close> object a handler hands to \<open>Review.find\<close> and
  \<open>Review.countDocuments\<close>. An absent key constrains nothing. \<open>f_search\<close> is the
  \<open>$or\<close> of the two regular-expression tests on \<open>title\<close> and \<open>content\<close>; \<open>f_rating\<close>
  holds the result of \<open>parseInt\<close>.
\<close>

record review_filter =
  f_search :: "(string \<Rightarrow> bool) option"
  f_book :: "string option"
  f_author :: "string option"
  f_reviewer :: "string option"
  f_rating :: "number option"
  f_status :: "string option"

definition castable :: "string option \<Rightarrow> bool" where
  "castable v = (case v of None \<Rightarrow> True | Some s \<Rightarrow> matchesObjectIdPattern s)"

text \<open>
  Mongoose casts the values of a query to the types of the schema before it runs it: a
  reference that is no ObjectId and a \<open>NaN\<close> rating are a \<open>CastError\<close>.
\<close>

definition filterCasts :: "review_filter \<Rightarrow> bool" where
  "filterCasts q =
     (castable (f_book q) \<and> castable (f_author q) \<and> castable (f_reviewer q) \<and>
      f_rating q \<noteq> Some NaN)"

definition refMatches :: "string option \<Rightarrow> oid option \<Rightarrow> bool" where
  "refMatches wanted stored =
     (case wanted of
        None \<Rightarrow> True
      | Some s \<Rightarrow> (case castObjectId s of None \<Rightarrow> False | Some i \<Rightarrow> stored = Some i))"

definition reviewMatches :: "review_filter \<Rightarrow> review \<Rightarrow> bool" where
  "reviewMatches q r =
     ((case f_search q of None \<Rightarrow> True | Some re \<Rightarrow> re (title r) \<or> re (content r)) \<and>
      refMatches (f_book q) (book r) \<and>
      refMatches (f_author q) (author r) \<and>
      refMatches (f_reviewer q) (Some (reviewer r)) \<and>
      (case f_rating q of
         None \<Rightarrow> True
       | Some (Finite n) \<Rightarrow> rating r = n
       | Some _ \<Rightarrow> False) \<and>
      (case f_status q of None \<Rightarrow> True | Some s \<Rightarrow> status r = s))"

text \<open>\<open>Review.find(query)\<close>: the matching documents, in the order of the collection.\<close>

definition Review_find :: "review_filter \<Rightarrow> review list \<Rightarrow> error + review list" where
  "Review_find q rs = (if filterCasts q then Inr (filter (reviewMatches q) rs) else Inl CastError)"

text \<open>
  \<open>.sort(sortOptions)\<close>. The handlers build \<open>sortOptions\<close> with exactly one key: a pair
  of the field and the direction (1 ascending, -1 descending). Strings compare byte by
  byte. The store is modelled as sorting by insertion, which keeps documents with equal
  keys in the order of the collection; no theorem below depends on that choice. A field
  that no review handler can produce leaves the order alone.
\<close>

fun stringLe :: "string \<Rightarrow> string \<Rightarrow> bool" where
  "stringLe [] t = True"
| "stringLe (a # s) [] = False"
| "stringLe (a # s) (b # t) =
     (if a = b then stringLe s t else (of_char a :: nat) < of_char b)"

definition reviewLe :: "string \<Rightarrow> review \<Rightarrow> review \<Rightarrow> bool" where
  "reviewLe field x y =
     (if field = ''title'' then stringLe (title x) (title y)
      else if field = ''rating'' then rating x \<le> rating y
      else if field = ''helpful'' then helpful x \<le> helpful y
      else if field = ''createdAt'' then createdAt x \<le> createdAt y
      else True)"

fun insertBy :: "('a \<Rightarrow> 'a \<Rightarrow> bool) \<Rightarrow> 'a \<Rightarrow> 'a list \<Rightarrow> 'a list" where
  "insertBy le x [] = [x]"
| "insertBy le x (y # ys) = (if le x y then x # y # ys else y # insertBy le x ys)"

definition sortWith :: "('a \<Rightarrow> 'a \<Rightarrow> bool) \<Rightarrow> 'a list \<Rightarrow> 'a list" where
  "sortWith le xs = foldr (insertBy le) xs []"

definition sortReviews :: "string \<times> int \<Rightarrow> review list \<Rightarrow> review list" where
  "sortReviews sortOptions rs =
     sortWith (\<lambda>x y. if snd sortOptions = - 1 then reviewLe (fst sortOptions) y x
                    else reviewLe (fst sortOptions) x y) rs"

text \<open>
  \<open>.limit(limit).skip(startIndex)\<close> on the sorted matches: the store skips first,
  whatever the order of the two calls. The driver sends a negative limit as its
  opposite. The server reads both numbers as 64-bit integers, rejects a negative skip
  and reads the limit 0 as no limit. A number beyond the 64-bit range is taken as the
  nearest bound and \<open>NaN\<close> as 0, as the current server converts a double; no property
  below depends on that conversion. Documents are skipped and kept one by one, so that
  the index may be any integer.
\<close>

definition toInt64 :: "number \<Rightarrow> int" where
  "toInt64 x =
     (case x of
        NaN \<Rightarrow> 0
      | Finite a \<Rightarrow> max (- (2 ^ 63)) (min (2 ^ 63 - 1) (if 0 \<le> a then \<lfloor>a\<rfloor> else \<lceil>a\<rceil>))
      | PosInfinity \<Rightarrow> 2 ^ 63 - 1
      | NegInfinity \<Rightarrow> - (2 ^ 63))"

fun skipDocs :: "int \<Rightarrow> 'a list \<Rightarrow> 'a list" where
  "skipDocs k [] = []"
| "skipDocs k (x # xs) = (if k \<le> 0 then x # xs else skipDocs (k - 1) xs)"

fun limitDocs :: "int \<Rightarrow> 'a list \<Rightarrow> 'a list" where
  "limitDocs k [] = []"
| "limitDocs k (x # xs) = (if k \<le> 0 then [] else x # limitDocs (k - 1) xs)"

definition slice :: "int \<Rightarrow> int \<Rightarrow> 'a list \<Rightarrow> error + 'a list" where
  "slice limit skip docs =
     (if skip < 0 then Inl StorageError
      else if limit = 0 then Inr (skipDocs skip docs)
      else Inr (limitDocs limit (skipDocs skip docs)))"

definition window :: "number \<Rightarrow> number \<Rightarrow> 'a list \<Rightarrow> error + 'a list" where
  "window limit startIndex docs =
     slice (toInt64 (if Number_negative limit then Number_neg limit else limit))
       (toInt64 startIndex) docs"

section \<open>The rating recomputation (\<open>reviewSchema.statics\<close>)\<close>

text \<open>
  The aggregation pipeline \<open>$match {target: id, status: 'Published'}\<close>, then \<open>$group\<close>
  by the target with \<open>$avg\<close> of \<open>rating\<close> and \<open>$sum: 1\<close>. A \<open>$group\<close> stage emits one
  document per group of its input: none when nothing matched. The hooks pass the
  reference stored in the review, an ObjectId already, so \<open>mongoose.Types.ObjectId(id)\<close>
  is that identifier (where the installed Mongoose only accepts \<open>new ObjectId\<close>, the call
  throws instead: the fault \<open>AggregateRejects\<close> below). The mean is the exact quotient;
  \<open>$avg\<close> gives a double near it, which is the quotient itself for the means
  evaluated below.
\<close>

record rating_group =
  g_id :: oid
  g_averageRating :: rat
  g_ratingCount :: nat

definition aggregateRatings ::
  "(review \<Rightarrow> oid option) \<Rightarrow> oid \<Rightarrow> review list \<Rightarrow> rating_group list" where
  "aggregateRatings target i rs =
     (let matched = filter (\<lambda>r. target r = Some i \<and> status r = ''Published'') rs
      in if matched = [] then []
         else [\<lparr> g_id = i,
                 g_averageRating = sum_list (map rating matched) / of_nat (length matched),
                 g_ratingCount = length matched \<rparr>])"

text \<open>
  \<open>Book.findByIdAndUpdate(bookId, {averageRating, ratingCount})\<close>. Both paths are
  declared by \<open>bookSchema\<close>; \<open>timestamps: true\<close> makes Mongoose set \<open>updatedAt\<close> in
  every \<open>findOneAndUpdate\<close>. No document with that identifier: nothing is written.
\<close>

definition Book_findByIdAndUpdate :: "int \<Rightarrow> oid \<Rightarrow> rating_group \<Rightarrow> book_doc list \<Rightarrow> book_doc list" where
  "Book_findByIdAndUpdate t i g bs =
     map (\<lambda>b. if b_id b = i
               then b\<lparr> averageRating := g_averageRating g, ratingCount := g_ratingCount g,
                       b_updatedAt := t \<rparr>
               else b) bs"

text \<open>
  \<open>Author.findByIdAndUpdate(authorId, {averageRating, ratingCount})\<close>. \<open>authorSchema\<close>
  declares neither path, and a schema is strict unless it says otherwise, so Mongoose
  drops both keys from the update; what is left of the update is the \<open>updatedAt\<close> that
  \<open>timestamps: true\<close> adds.
\<close>

definition Author_findByIdAndUpdate :: "int \<Rightarrow> oid \<Rightarrow> rating_group \<Rightarrow> author_doc list \<Rightarrow> author_doc list" where
  "Author_findByIdAndUpdate t i g as =
     map (\<lambda>a. if a_id a = i then a\<lparr> a_updatedAt := t \<rparr> else a) as"

definition calculateBookRating :: "fault \<Rightarrow> int \<Rightarrow> oid \<Rightarrow> db \<Rightarrow> error + db" where
  "calculateBookRating flt t bookId d =
     (if flt = AggregateRejects then Inl StorageError
      else (case aggregateRatings book bookId (reviews d) of
              [] \<Rightarrow> Inr d
            | g # _ \<Rightarrow>
                (if flt = UpdateRejects then Inl StorageError
                 else Inr (d\<lparr> books := Book_findByIdAndUpdate t bookId g (books d) \<rparr>))))"

definition calculateAuthorRating :: "fault \<Rightarrow> int \<Rightarrow> oid \<Rightarrow> db \<Rightarrow> error + db" where
  "calculateAuthorRating flt t authorId d =
     (if flt = AggregateRejects then Inl StorageError
      else (case aggregateRatings author authorId (reviews d) of
              [] \<Rightarrow> Inr d
            | g # _ \<Rightarrow>
                (if flt = UpdateRejects then Inl StorageError
                 else Inr (d\<lparr> authors := Author_findByIdAndUpdate t authorId g (authors d) \<rparr>))))"

text \<open>
  The body shared by the two hooks: \<open>try { if (doc.book) await calculateBookRating(doc.book);
  if (doc.author) await calculateAuthorRating(doc.author); } catch (error) { console.error(msg, error) }\<close>.
  A failure of the first recomputation skips the second.
\<close>

definition updateRatings :: "string \<Rightarrow> env \<Rightarrow> review \<Rightarrow> db \<Rightarrow> db" where
  "updateRatings msg e doc d =
     (case (case book doc of
              Some b \<Rightarrow> calculateBookRating (bookFault e) (now e) b d
            | None \<Rightarrow> Inr d) of
        Inl err \<Rightarrow> d\<lparr> console := console d @ [msg] \<rparr>
      | Inr d1 \<Rightarrow>
          (case (case author doc of
                   Some a \<Rightarrow> calculateAuthorRating (authorFault e) (now e) a d1
                 | None \<Rightarrow> Inr d1) of
             Inl err \<Rightarrow> d1\<lparr> console := console d1 @ [msg] \<rparr>
           | Inr d2 \<Rightarrow> d2))"

text \<open>\<open>reviewSchema.post('save', ...)\<close>: runs after \<open>doc.save()\<close>, so after \<open>Review.create\<close>.\<close>

definition postSave :: "env \<Rightarrow> review \<Rightarrow> db \<Rightarrow> db" where
  "postSave = updateRatings ''Error updating ratings after review save:''"

text \<open>
  \<open>reviewSchema.post('remove', ...)\<close>: runs after \<open>doc.remove()\<close>. No handler of the
  repository calls \<open>remove()\<close> on a document.
\<close>

definition postRemove :: "env \<Rightarrow> review \<Rightarrow> db \<Rightarrow> db" where
  "postRemove = updateRatings ''Error updating ratings after review removal:''"

section \<open>The review collection: writes\<close>

text \<open>
  \<open>req.body\<close> of a review request: the keys the schema knows, each present or absent,
  with a value of the JSON type the schema casts from (a reference is a string, which may
  fail to cast; a number is a number; a date is a valid date).
\<close>

record review_body =
  req_title :: "string option"
  req_content :: "string option"
  req_rating :: "rat option"
  req_book :: "string option"
  req_author :: "string option"
  req_reviewer :: "string option"
  req_helpful :: "rat option"
  req_status :: "string option"
  req_moderatedBy :: "string option"
  req_moderatedAt :: "int option"
  req_moderationReason :: "string option"
  req_createdAt :: "int option"
  req_updatedAt :: "int option"

definition statusEnum :: "string list" where
  "statusEnum = [''Published'', ''Pending'', ''Hidden'', ''Flagged'']"

text \<open>
  The validators of \<open>reviewSchema\<close>, path by path, with the messages the schema gives
  them (a cast failure and an enum failure carry Mongoose's own message, abbreviated
  here). \<open>required\<close> says whether a missing path fails: it does when a document is saved,
  it does not when \<open>runValidators\<close> checks the paths of an update. Several messages are
  listed in the order of the schema; Mongoose lists them in the order in which it visits
  the paths, and no property below depends on that order.
\<close>

definition titleErrors :: "bool \<Rightarrow> string option \<Rightarrow> string list" where
  "titleErrors required v =
     (case v of
        None \<Rightarrow> (if required then [''Review title is required''] else [])
      | Some t \<Rightarrow>
          (if trim t = [] then [''Review title is required'']
           else if 200 < length (trim t) then [''Title cannot exceed 200 characters'']
           else []))"

definition contentErrors :: "bool \<Rightarrow> string option \<Rightarrow> string list" where
  "contentErrors required v =
     (case v of
        None \<Rightarrow> (if required then [''Review content is required''] else [])
      | Some c \<Rightarrow>
          (if c = [] then [''Review content is required'']
           else if 5000 < length c then [''Content cannot exceed 5000 characters'']
           else []))"

definition ratingErrors :: "bool \<Rightarrow> rat option \<Rightarrow> string list" where
  "ratingErrors required v =
     (case v of
        None \<Rightarrow> (if required then [''Rating is required''] else [])
      | Some r \<Rightarrow>
          (if r < 1 then [''Rating must be at least 1'']
           else if 5 < r then [''Rating cannot exceed 5'']
           else []))"

definition refErrors :: "string \<Rightarrow> string option \<Rightarrow> string list" where
  "refErrors path v = (if castable v then [] else [''Cast to ObjectId failed at path '' @ path])"

definition reviewerErrors :: "bool \<Rightarrow> string option \<Rightarrow> string list" where
  "reviewerErrors required v =
     (case v of
        None \<Rightarrow> (if required then [''Reviewer is required''] else [])
      | Some s \<Rightarrow> refErrors ''reviewer'' (Some s))"

definition helpfulErrors :: "rat option \<Rightarrow> string list" where
  "helpfulErrors v =
     (case v of
        None \<Rightarrow> []
      | Some h \<Rightarrow> (if h < 0 then [''Helpful count cannot be negative''] else []))"

definition statusErrors :: "string option \<Rightarrow> string list" where
  "statusErrors v =
     (case v of
        None \<Rightarrow> []
      | Some s \<Rightarrow> (if s \<in> set statusEnum then [] else [''status is not a valid enum value'']))"

definition moderationReasonErrors :: "string option \<Rightarrow> string list" where
  "moderationReasonErrors v =
     (case v of
        None \<Rightarrow> []
      | Some m \<Rightarrow>
          (if 500 < length (trim m) then [''Moderation reason cannot exceed 500 characters'']
           else []))"

definition schemaErrors :: "bool \<Rightarrow> review_body \<Rightarrow> string list" where
  "schemaErrors required b =
     titleErrors required (req_title b) @ contentErrors required (req_content b) @
     ratingErrors required (req_rating b) @ refErrors ''book'' (req_book b) @
     refErrors ''author'' (req_author b) @ reviewerErrors required (req_reviewer b) @
     helpfulErrors (req_helpful b) @ statusErrors (req_status b) @
     refErrors ''moderatedBy'' (req_moderatedBy b) @
     moderationReasonErrors (req_moderationReason b)"

definition castRef :: "string option \<Rightarrow> oid option" where
  "castRef v = (case v of None \<Rightarrow> None | Some s \<Rightarrow> castObjectId s)"

text \<open>
  The document \<open>new Review(body)\<close> holds after the defaults of the schema
  (\<open>helpful\<close> 0, \<open>status\<close> Published, \<open>createdAt\<close> now) and the pre-save hook
  (\<open>this.updatedAt = new Date()\<close>, whatever the body says); \<open>None\<close> when a required
  path is missing or does not cast.
\<close>

definition newReview :: "env \<Rightarrow> review_body \<Rightarrow> review option" where
  "newReview e b =
     (case (req_title b, req_content b, req_rating b, castRef (req_reviewer b)) of
        (Some t, Some c, Some r, Some u) \<Rightarrow>
          Some \<lparr> rid = newId e, title = trim t, content = c, rating = r,
                 book = castRef (req_book b), author = castRef (req_author b), reviewer = u,
                 helpful = (case req_helpful b of None \<Rightarrow> 0 | Some h \<Rightarrow> h),
                 status = (case req_status b of None \<Rightarrow> ''Published'' | Some s \<Rightarrow> s),
                 moderatedBy = castRef (req_moderatedBy b),
                 moderatedAt = req_moderatedAt b,
                 moderationReason = map_option trim (req_moderationReason b),
                 createdAt = (case req_createdAt b of None \<Rightarrow> now e | Some t \<Rightarrow> t),
                 updatedAt = now e \<rparr>
      | _ \<Rightarrow> None)"

text \<open>
  The unique indexes of the collection: \<open>_id\<close>, and the two partial indexes
  \<open>{reviewer, book}\<close> on documents that have a \<open>book\<close> and \<open>{reviewer, author}\<close> on
  documents that have an \<open>author\<close>. \<open>doc\<close> is checked against the other documents.
\<close>

definition duplicateKey :: "review \<Rightarrow> review list \<Rightarrow> bool" where
  "duplicateKey doc others =
     list_ex (\<lambda>r. rid r = rid doc \<or>
                  (book doc \<noteq> None \<and> reviewer r = reviewer doc \<and> book r = book doc) \<or>
                  (author doc \<noteq> None \<and> reviewer r = reviewer doc \<and> author r = author doc))
       others"

text \<open>
  \<open>Review.create(body)\<close>: validate, insert, then the post-save hook. The hook cannot
  fail the call: it catches what the recomputation throws.
\<close>

definition Review_create :: "env \<Rightarrow> review_body \<Rightarrow> db \<Rightarrow> (error + review) \<times> db" where
  "Review_create e b d =
     (if schemaErrors True b \<noteq> [] then (Inl (ValidationError (schemaErrors True b)), d)
      else (case newReview e b of
              None \<Rightarrow> (Inl (ValidationError (schemaErrors True b)), d)
            | Some doc \<Rightarrow>
                (if duplicateKey doc (reviews d) then (Inl DuplicateKey, d)
                 else (Inr doc, postSave e doc (d\<lparr> reviews := reviews d @ [doc] \<rparr>)))))"

text \<open>\<open>Review.findById(id)\<close>.\<close>

definition Review_findById :: "string \<Rightarrow> review list \<Rightarrow> error + review option" where
  "Review_findById i rs =
     (case castObjectId i of
        None \<Rightarrow> Inl CastError
      | Some k \<Rightarrow> Inr (find (\<lambda>r. rid r = k) rs))"

text \<open>The \<open>$set\<close> of the keys of an update body on one document.\<close>

definition applyUpdate :: "review_body \<Rightarrow> review \<Rightarrow> review" where
  "applyUpdate b r =
     r\<lparr> title := (case req_title b of None \<Rightarrow> title r | Some t \<Rightarrow> trim t),
        content := (case req_content b of None \<Rightarrow> content r | Some c \<Rightarrow> c),
        rating := (case req_rating b of None \<Rightarrow> rating r | Some x \<Rightarrow> x),
        book := (case req_book b of None \<Rightarrow> book r | Some s \<Rightarrow> castObjectId s),
        author := (case req_author b of None \<Rightarrow> author r | Some s \<Rightarrow> castObjectId s),
        reviewer := (case castRef (req_reviewer b) of None \<Rightarrow> reviewer r | Some u \<Rightarrow> u),
        helpful := (case req_helpful b of None \<Rightarrow> helpful r | Some h \<Rightarrow> h),
        status := (case req_status b of None \<Rightarrow> status r | Some s \<Rightarrow> s),
        moderatedBy := (case req_moderatedBy b of None \<Rightarrow> moderatedBy r
                        | Some s \<Rightarrow> castObjectId s),
        moderatedAt := (case req_moderatedAt b of None \<Rightarrow> moderatedAt r | Some t \<Rightarrow> Some t),
        moderationReason := (case req_moderationReason b of None \<Rightarrow> moderationReason r
                             | Some m \<Rightarrow> Some (trim m)),
        createdAt := (case req_createdAt b of None \<Rightarrow> createdAt r | Some t \<Rightarrow> t),
        updatedAt := (case req_updatedAt b of None \<Rightarrow> updatedAt r | Some t \<Rightarrow> t) \<rparr>"

text \<open>
  \<open>Review.findByIdAndUpdate(id, body, {new: true, runValidators: true})\<close>: a query, not
  a \<open>save()\<close>. Mongoose runs query middleware (\<open>findOneAndUpdate\<close>) for it, and the schema
  registers none: neither the pre-save hook nor the post-save hook runs. The result is
  the updated document, or \<open>None\<close> (\<open>null\<close>) when there is none with that identifier.
\<close>

definition Review_findByIdAndUpdate ::
  "string \<Rightarrow> review_body \<Rightarrow> review list \<Rightarrow> error + (review option \<times> review list)" where
  "Review_findByIdAndUpdate i b rs =
     (case castObjectId i of
        None \<Rightarrow> Inl CastError
      | Some k \<Rightarrow>
          (if \<not> (castable (req_book b) \<and> castable (req_author b) \<and>
                  castable (req_reviewer b) \<and> castable (req_moderatedBy b))
           then Inl CastError
           else if schemaErrors False b \<noteq> [] then Inl (ValidationError (schemaErrors False b))
           else (case find (\<lambda>r. rid r = k) rs of
                   None \<Rightarrow> Inr (None, rs)
                 | Some old \<Rightarrow>
                     (if duplicateKey (applyUpdate b old) (filter (\<lambda>r. rid r \<noteq> k) rs)
                      then Inl DuplicateKey
                      else Inr (Some (applyUpdate b old),
                                map (\<lambda>r. if rid r = k then applyUpdate b r else r) rs)))))"

text \<open>
  \<open>Review.findByIdAndUpdate(id, {$inc: {helpful: 1}}, {new: true})\<close>, again a query.
\<close>

definition Review_incHelpful :: "string \<Rightarrow> review list \<Rightarrow> error + (review option \<times> review list)" where
  "Review_incHelpful i rs =
     (case castObjectId i of
        None \<Rightarrow> Inl CastError
      | Some k \<Rightarrow>
          Inr (map_option (\<lambda>r. r\<lparr> helpful := helpful r + 1 \<rparr>) (find (\<lambda>r. rid r = k) rs),
               map (\<lambda>r. if rid r = k then r\<lparr> helpful := helpful r + 1 \<rparr> else r) rs))"

text \<open>
  \<open>Review.findByIdAndDelete(id)\<close>: a query as well (\<open>findOneAndDelete\<close> middleware);
  the post-remove hook is document middleware of \<open>remove()\<close> and does not run.
\<close>

definition Review_findByIdAndDelete :: "string \<Rightarrow> review list \<Rightarrow> error + review list" where
  "Review_findByIdAndDelete i rs =
     (case castObjectId i of
        None \<Rightarrow> Inl CastError
      | Some k \<Rightarrow> Inr (filter (\<lambda>r. rid r \<noteq> k) rs))"

section \<open>Pagination shared by the four list handlers\<close>

text \<open>
  \<open>getAllReviews\<close>, \<open>getAllBooks\<close>, \<open>getAllAuthors\<close> and \<open>getAllPublishers\<close> end with
  the same block, from \<open>// Pagination\<close> to the response. \<open>docs\<close> are the documents
  \<open>Model.find(query).sort(sortOptions)\<close> yields before \<open>limit\<close> and \<open>skip\<close>;
  \<open>countDocuments(query)\<close> is their number. An exception of the store is caught by the
  handler and answered with 500. In the JSON of the response a number that is not
  finite prints as \<open>null\<close>.
\<close>

definition pageOf :: "(string \<Rightarrow> string option) \<Rightarrow> number" where
  "pageOf q = orDefault (parseInt (q ''page'') (Some 10)) (Finite 1)"

definition limitOf :: "(string \<Rightarrow> string option) \<Rightarrow> number" where
  "limitOf q = orDefault (parseInt (q ''limit'') (Some 10)) (Finite 10)"

definition paginate :: "(string \<Rightarrow> string option) \<Rightarrow> 'a list \<Rightarrow> 'a response" where
  "paginate q docs =
     (let page = pageOf q;
          limit = limitOf q;
          startIndex = Number_mul (Number_sub page (Finite 1)) limit;
          total = roundToDouble (of_nat (length docs))
      in case window limit startIndex docs of
           Inl err \<Rightarrow> serverError
         | Inr items \<Rightarrow>
             Response 200
               (Page (length items)
                  \<lparr> p_current = page, p_total = Math_ceil (Number_div total limit),
                    p_count = length items \<rparr>
                  items None))"

definition notConnectedPage :: "'a response" where
  "notConnectedPage =
     Response 200
       (Page 0 \<lparr> p_current = Finite 1, p_total = Finite 0, p_count = 0 \<rparr> []
          (Some ''Database not connected - returning empty results''))"

definition notConnectedListing :: "'a response" where
  "notConnectedListing =
     Response 200 (Listing 0 [] (Some ''Database not connected - returning empty results''))"

text \<open>The \<open>sortOrder\<close> of a request as a direction.\<close>

definition direction :: "(string \<Rightarrow> string option) \<Rightarrow> int" where
  "direction q = (if q ''sortOrder'' = Some ''desc'' then - 1 else 1)"

section \<open>The review controller (\<open>controllers/reviews.js\<close>)\<close>

text \<open>
  \<open>RegExp\<close> stands for \<open>new RegExp(pattern, 'i')\<close>: the test the pattern compiles to,
  or \<open>None\<close> when the constructor throws a \<open>SyntaxError\<close>. Resolving references for the
  response (\<open>populate\<close>) and projecting fields (\<open>select\<close>) change how a document is
  shown, not which documents are returned, and are left out. A handler that writes
  takes the store and gives it back with its response.
\<close>

definition reviewQuery ::
  "(string \<Rightarrow> (string \<Rightarrow> bool) option) \<Rightarrow> (string \<Rightarrow> string option) \<Rightarrow> error + review_filter" where
  "reviewQuery RegExp q =
     (case (case given (q ''search'') of
              None \<Rightarrow> Inr None
            | Some p \<Rightarrow> (case RegExp p of None \<Rightarrow> Inl SyntaxError | Some re \<Rightarrow> Inr (Some re))) of
        Inl err \<Rightarrow> Inl err
      | Inr search \<Rightarrow>
          Inr \<lparr> f_search = search,
                f_book = given (q ''book''),
                f_author = given (q ''author''),
                f_reviewer = given (q ''reviewer''),
                f_rating = (case given (q ''rating'') of
                              None \<Rightarrow> None
                            | Some v \<Rightarrow> Some (parseInt (Some v) None)),
                f_status = given (q ''status'') \<rparr>)"

definition reviewSortOptions :: "(string \<Rightarrow> string option) \<Rightarrow> string \<times> int" where
  "reviewSortOptions q =
     (case given (q ''sortBy'') of
        Some sortBy \<Rightarrow>
          (let sortField = (if sortBy = ''title'' then ''title''
                            else if sortBy = ''rating'' then ''rating''
                            else if sortBy = ''helpful'' then ''helpful''
                            else ''createdAt'')
           in (sortField, direction q))
      | None \<Rightarrow> (''createdAt'', - 1))"

definition getAllReviews ::
  "(string \<Rightarrow> (string \<Rightarrow> bool) option) \<Rightarrow> nat \<Rightarrow> (string \<Rightarrow> string option) \<Rightarrow> review list \<Rightarrow>
     review response" where
  "getAllReviews RegExp state q rs =
     (if state \<noteq> 1 then notConnectedPage
      else (case reviewQuery RegExp q of
              Inl err \<Rightarrow> otherwise500 err
            | Inr query \<Rightarrow>
                (case Review_find query rs of
                   Inl err \<Rightarrow> otherwise500 err
                 | Inr found \<Rightarrow> paginate q (sortReviews (reviewSortOptions q) found))))"

definition getReviewById :: "nat \<Rightarrow> string \<Rightarrow> review list \<Rightarrow> review response" where
  "getReviewById state i rs =
     (if state \<noteq> 1 then Response 404 (Failure ''Database not connected'')
      else (case Review_findById i rs of
              Inl err \<Rightarrow> onCastError ''Review not found'' otherwise500 err
            | Inr None \<Rightarrow> Response 404 (Failure ''Review not found'')
            | Inr (Some r) \<Rightarrow> Response 200 (Item (Some r) None)))"

definition createReview :: "env \<Rightarrow> review_body \<Rightarrow> db \<Rightarrow> review response \<times> db" where
  "createReview e body d =
     (if readyState e \<noteq> 1
      then (Response 503 (Failure ''Database not connected - cannot create review''), d)
      else (case Review_create e body d of
              (Inr r, d') \<Rightarrow> (Response 201 (Item (Some r) None), d')
            | (Inl err, d') \<Rightarrow>
                (onDuplicateKey ''You have already reviewed this item''
                   (onValidationError otherwise500) err, d')))"

definition updateReview :: "env \<Rightarrow> string \<Rightarrow> review_body \<Rightarrow> db \<Rightarrow> review response \<times> db" where
  "updateReview e i body d =
     (if readyState e \<noteq> 1
      then (Response 503 (Failure ''Database not connected - cannot update review''), d)
      else (case Review_findById i (reviews d) of
              Inl err \<Rightarrow>
                (onCastError ''Review not found'' (onValidationError otherwise500) err, d)
            | Inr None \<Rightarrow> (Response 404 (Failure ''Review not found''), d)
            | Inr (Some found) \<Rightarrow>
                (case Review_findByIdAndUpdate i body (reviews d) of
                   Inl err \<Rightarrow>
                     (onCastError ''Review not found'' (onValidationError otherwise500) err, d)
                 | Inr (r, rs') \<Rightarrow> (Response 200 (Item r None), d\<lparr> reviews := rs' \<rparr>))))"

definition deleteReview :: "env \<Rightarrow> string \<Rightarrow> db \<Rightarrow> review response \<times> db" where
  "deleteReview e i d =
     (if readyState e \<noteq> 1
      then (Response 503 (Failure ''Database not connected - cannot delete review''), d)
      else (case Review_findById i (reviews d) of
              Inl err \<Rightarrow> (onCastError ''Review not found'' otherwise500 err, d)
            | Inr None \<Rightarrow> (Response 404 (Failure ''Review not found''), d)
            | Inr (Some found) \<Rightarrow>
                (case Review_findByIdAndDelete i (reviews d) of
                   Inl err \<Rightarrow> (onCastError ''Review not found'' otherwise500 err, d)
                 | Inr rs' \<Rightarrow>
                     (Response 200 (Emptied ''Review deleted successfully''),
                      d\<lparr> reviews := rs' \<rparr>))))"

text \<open>
  \<open>Review.find({book: bookId, status: 'Published'}).sort({createdAt: -1})\<close> and its
  twin for an author.
\<close>

definition getReviewsByBook :: "nat \<Rightarrow> string \<Rightarrow> review list \<Rightarrow> review response" where
  "getReviewsByBook state bookId rs =
     (if state \<noteq> 1 then notConnectedListing
      else (case Review_find
                   \<lparr> f_search = None, f_book = Some bookId, f_author = None, f_reviewer = None,
                     f_rating = None, f_status = Some ''Published'' \<rparr> rs of
              Inl err \<Rightarrow> onCastError ''Book not found'' otherwise500 err
            | Inr found \<Rightarrow>
                (let sorted = sortReviews (''createdAt'', - 1) found
                 in Response 200 (Listing (length sorted) sorted None))))"

definition getReviewsByAuthor :: "nat \<Rightarrow> string \<Rightarrow> review list \<Rightarrow> review response" where
  "getReviewsByAuthor state authorId rs =
     (if state \<noteq> 1 then notConnectedListing
      else (case Review_find
                   \<lparr> f_search = None, f_book = None, f_author = Some authorId, f_reviewer = None,
                     f_rating = None, f_status = Some ''Published'' \<rparr> rs of
              Inl err \<Rightarrow> onCastError ''Author not found'' otherwise500 err
            | Inr found \<Rightarrow>
                (let sorted = sortReviews (''createdAt'', - 1) found
                 in Response 200 (Listing (length sorted) sorted None))))"

definition markReviewHelpful :: "env \<Rightarrow> string \<Rightarrow> db \<Rightarrow> review response \<times> db" where
  "markReviewHelpful e i d =
     (if readyState e \<noteq> 1 then (Response 503 (Failure ''Database not connected''), d)
      else (case Review_incHelpful i (reviews d) of
              Inl err \<Rightarrow> (onCastError ''Review not found'' otherwise500 err, d)
            | Inr (None, rs') \<Rightarrow> (Response 404 (Failure ''Review not found''), d)
            | Inr (Some r, rs') \<Rightarrow>
                (Response 200 (Item (Some r) (Some ''Review marked as helpful'')),
                 d\<lparr> reviews := rs' \<rparr>)))"

section \<open>The create validator of reviews (\<open>reviewValidation.create\<close>)\<close>








section \<open>The controllers of books, authors and publishers\<close>

text \<open>
  These controllers are embedded over an abstract store: each handler takes the Mongoose
  call it makes as a function that gives the outcome of the call. A \<open>query\<close> is the
  object the handler builds, key by key; a sort specification is the list of the keys of
  the object given to \<open>.sort\<close>, each with its direction. \<open>findSorted query sort\<close> stands for
  \<open>Model.find(query).sort(sort)\<close> before \<open>limit\<close> and \<open>skip\<close>; what the handler
  itself can throw while it builds the query (\<open>new RegExp\<close> in \<open>getAllAuthors\<close>) ends in
  the same \<open>catch\<close> and counts as an error of that call. The handlers that read one
  document by its identifier are not embedded.
\<close>

datatype condition =
    Equals string
  | NotEquals string
  | TextSearch string
  | RegExpI string
  | AtLeast number

type_synonym query = "(string \<times> condition) list"

definition whenGiven :: "string option \<Rightarrow> (string \<Rightarrow> string \<times> condition) \<Rightarrow> query" where
  "whenGiven v entry = (case given v of None \<Rightarrow> [] | Some s \<Rightarrow> [entry s])"

definition bookQuery :: "(string \<Rightarrow> string option) \<Rightarrow> query" where
  "bookQuery q =
     whenGiven (q ''search'') (\<lambda>s. (''$text'', TextSearch s)) @
     whenGiven (q ''author'') (\<lambda>s. (''author'', Equals s)) @
     whenGiven (q ''publisher'') (\<lambda>s. (''publisher'', Equals s)) @
     whenGiven (q ''genre'') (\<lambda>s. (''genre'', Equals s))"

text \<open>\<open>sortOptions[req.query.sortBy] = ...\<close>: the parameter itself is the key.\<close>

definition bookSortOptions :: "(string \<Rightarrow> string option) \<Rightarrow> string \<times> int" where
  "bookSortOptions q =
     (case given (q ''sortBy'') of
        Some sortBy \<Rightarrow> (sortBy, direction q)
      | None \<Rightarrow> (''createdAt'', - 1))"

definition getAllBooks ::
  "(query \<Rightarrow> (string \<times> int) list \<Rightarrow> error + 'a list) \<Rightarrow> nat \<Rightarrow> (string \<Rightarrow> string option) \<Rightarrow>
     'a response" where
  "getAllBooks findSorted state q =
     (if state \<noteq> 1 then notConnectedPage
      else (case findSorted (bookQuery q) [bookSortOptions q] of
              Inl err \<Rightarrow> otherwise500 err
            | Inr docs \<Rightarrow> paginate q docs))"

definition getBooksByAuthor ::
  "(query \<Rightarrow> (string \<times> int) list \<Rightarrow> error + 'a list) \<Rightarrow> nat \<Rightarrow> string \<Rightarrow> 'a response" where
  "getBooksByAuthor findSorted state authorId =
     (if state \<noteq> 1 then notConnectedListing
      else (case findSorted [(''author'', Equals authorId)]
                   [(''publicationDate'', - 1)] of
              Inl err \<Rightarrow> onCastError ''Author not found'' otherwise500 err
            | Inr docs \<Rightarrow> Response 200 (Listing (length docs) docs None)))"

definition createBook :: "('b \<Rightarrow> error + 'a) \<Rightarrow> nat \<Rightarrow> 'b \<Rightarrow> 'a response" where
  "createBook create state body =
     (if state \<noteq> 1
      then Response 503 (Failure ''Database not connected - cannot create book'')
      else (case create body of
              Inr doc \<Rightarrow> Response 201 (Item (Some doc) None)
            | Inl err \<Rightarrow> onDuplicateKey ''Book with this ISBN already exists'' (onValidationError otherwise500) err))"

definition updateBook ::
  "(string \<Rightarrow> error + 'a option) \<Rightarrow> (string \<Rightarrow> 'b \<Rightarrow> error + 'a option) \<Rightarrow> nat \<Rightarrow> string \<Rightarrow> 'b \<Rightarrow>
     'a response" where
  "updateBook findById findByIdAndUpdate state i body =
     (if state \<noteq> 1
      then Response 503 (Failure ''Database not connected - cannot update book'')
      else (case findById i of
              Inl err \<Rightarrow>
                onCastError ''Book not found''
                   (onDuplicateKey ''Book with this ISBN already exists'' (onValidationError otherwise500)) err
            | Inr None \<Rightarrow> Response 404 (Failure ''Book not found'')
            | Inr (Some found) \<Rightarrow>
                (case findByIdAndUpdate i body of
                   Inl err \<Rightarrow>
                     onCastError ''Book not found''
                   (onDuplicateKey ''Book with this ISBN already exists'' (onValidationError otherwise500)) err
                 | Inr doc \<Rightarrow> Response 200 (Item doc None))))"

definition deleteBook ::
  "(string \<Rightarrow> error + 'a option) \<Rightarrow> (string \<Rightarrow> error + unit) \<Rightarrow> nat \<Rightarrow> string \<Rightarrow> 'a response" where
  "deleteBook findById findByIdAndDelete state i =
     (if state \<noteq> 1
      then Response 503 (Failure ''Database not connected - cannot delete book'')
      else (case findById i of
              Inl err \<Rightarrow> onCastError ''Book not found'' otherwise500 err
            | Inr None \<Rightarrow> Response 404 (Failure ''Book not found'')
            | Inr (Some found) \<Rightarrow>
                (case findByIdAndDelete i of
                   Inl err \<Rightarrow> onCastError ''Book not found'' otherwise500 err
                 | Inr u \<Rightarrow> Response 200 (Emptied ''Book deleted successfully''))))"

definition authorQuery :: "(string \<Rightarrow> string option) \<Rightarrow> query" where
  "authorQuery q =
     whenGiven (q ''search'') (\<lambda>s. (''$text'', TextSearch s)) @
     whenGiven (q ''genre'') (\<lambda>s. (''genres'', Equals s)) @
     whenGiven (q ''nationality'') (\<lambda>s. (''nationality'', RegExpI s)) @
     whenGiven (q ''status'') (\<lambda>s. (''status'', Equals s))"

definition authorSortOptions :: "(string \<Rightarrow> string option) \<Rightarrow> string \<times> int" where
  "authorSortOptions q =
     (case given (q ''sortBy'') of
        Some sortBy \<Rightarrow>
          (let sortField = (if sortBy = ''firstName'' then ''firstName''
                            else if sortBy = ''lastName'' then ''lastName''
                            else if sortBy = ''birthDate'' then ''birthDate''
                            else ''createdAt'')
           in (sortField, direction q))
      | None \<Rightarrow> (''createdAt'', - 1))"

definition getAllAuthors ::
  "(query \<Rightarrow> (string \<times> int) list \<Rightarrow> error + 'a list) \<Rightarrow> nat \<Rightarrow> (string \<Rightarrow> string option) \<Rightarrow>
     'a response" where
  "getAllAuthors findSorted state q =
     (if state \<noteq> 1 then notConnectedPage
      else (case findSorted (authorQuery q) [authorSortOptions q] of
              Inl err \<Rightarrow> otherwise500 err
            | Inr docs \<Rightarrow> paginate q docs))"

definition getAuthorsByGenre ::
  "(query \<Rightarrow> (string \<times> int) list \<Rightarrow> error + 'a list) \<Rightarrow> nat \<Rightarrow> string \<Rightarrow> 'a response" where
  "getAuthorsByGenre findSorted state genre =
     (if state \<noteq> 1 then notConnectedListing
      else (case findSorted [(''genres'', Equals genre), (''status'', NotEquals ''Deceased'')]
                   [(''lastName'', 1), (''firstName'', 1)] of
              Inl err \<Rightarrow> otherwise500 err
            | Inr docs \<Rightarrow> Response 200 (Listing (length docs) docs None)))"

definition createAuthor :: "('b \<Rightarrow> error + 'a) \<Rightarrow> nat \<Rightarrow> 'b \<Rightarrow> 'a response" where
  "createAuthor create state body =
     (if state \<noteq> 1
      then Response 503 (Failure ''Database not connected - cannot create author'')
      else (case create body of
              Inr doc \<Rightarrow> Response 201 (Item (Some doc) None)
            | Inl err \<Rightarrow> onValidationError otherwise500 err))"

definition updateAuthor ::
  "(string \<Rightarrow> error + 'a option) \<Rightarrow> (string \<Rightarrow> 'b \<Rightarrow> error + 'a option) \<Rightarrow> nat \<Rightarrow> string \<Rightarrow> 'b \<Rightarrow>
     'a response" where
  "updateAuthor findById findByIdAndUpdate state i body =
     (if state \<noteq> 1
      then Response 503 (Failure ''Database not connected - cannot update author'')
      else (case findById i of
              Inl err \<Rightarrow>
                onCastError ''Author not found'' (onValidationError otherwise500) err
            | Inr None \<Rightarrow> Response 404 (Failure ''Author not found'')
            | Inr (Some found) \<Rightarrow>
                (case findByIdAndUpdate i body of
                   Inl err \<Rightarrow>
                     onCastError ''Author not found'' (onValidationError otherwise500) err
                 | Inr doc \<Rightarrow> Response 200 (Item doc None))))"

definition deleteAuthor ::
  "(string \<Rightarrow> error + 'a option) \<Rightarrow> (string \<Rightarrow> error + unit) \<Rightarrow> nat \<Rightarrow> string \<Rightarrow> 'a response" where
  "deleteAuthor findById findByIdAndDelete state i =
     (if state \<noteq> 1
      then Response 503 (Failure ''Database not connected - cannot delete author'')
      else (case findById i of
              Inl err \<Rightarrow> onCastError ''Author not found'' otherwise500 err
            | Inr None \<Rightarrow> Response 404 (Failure ''Author not found'')
            | Inr (Some found) \<Rightarrow>
                (case findByIdAndDelete i of
                   Inl err \<Rightarrow> onCastError ''Author not found'' otherwise500 err
                 | Inr u \<Rightarrow> Response 200 (Emptied ''Author deleted successfully''))))"

definition publisherQuery :: "(string \<Rightarrow> string option) \<Rightarrow> query" where
  "publisherQuery q =
     whenGiven (q ''search'') (\<lambda>s. (''$text'', TextSearch s)) @
     whenGiven (q ''genre'') (\<lambda>s. (''genres'', Equals s)) @
     whenGiven (q ''status'') (\<lambda>s. (''status'', Equals s)) @
     whenGiven (q ''foundedAfter'') (\<lambda>s. (''foundedYear'', AtLeast (parseInt (Some s) None)))"

definition publisherSortOptions :: "(string \<Rightarrow> string option) \<Rightarrow> string \<times> int" where
  "publisherSortOptions q =
     (case given (q ''sortBy'') of
        Some sortBy \<Rightarrow> (sortBy, direction q)
      | None \<Rightarrow> (''name'', 1))"

definition getAllPublishers ::
  "(query \<Rightarrow> (string \<times> int) list \<Rightarrow> error + 'a list) \<Rightarrow> nat \<Rightarrow> (string \<Rightarrow> string option) \<Rightarrow>
     'a response" where
  "getAllPublishers findSorted state q =
     (if state \<noteq> 1 then notConnectedPage
      else (case findSorted (publisherQuery q) [publisherSortOptions q] of
              Inl err \<Rightarrow> otherwise500 err
            | Inr docs \<Rightarrow> paginate q docs))"

definition getPublishersByGenre ::
  "(query \<Rightarrow> (string \<times> int) list \<Rightarrow> error + 'a list) \<Rightarrow> nat \<Rightarrow> string \<Rightarrow> 'a response" where
  "getPublishersByGenre findSorted state genre =
     (if state \<noteq> 1 then notConnectedListing
      else (case findSorted [(''genres'', Equals genre), (''status'', Equals ''Active'')]
                   [(''name'', 1)] of
              Inl err \<Rightarrow> otherwise500 err
            | Inr docs \<Rightarrow> Response 200 (Listing (length docs) docs None)))"

definition getPublisherBooks ::
  "(query \<Rightarrow> (string \<times> int) list \<Rightarrow> error + 'a list) \<Rightarrow> nat \<Rightarrow> string \<Rightarrow> 'a response" where
  "getPublisherBooks findSorted state i =
     (if state \<noteq> 1 then notConnectedListing
      else (case findSorted [(''publisher'', Equals i)]
                   [(''publicationDate'', - 1)] of
              Inl err \<Rightarrow> onCastError ''Publisher not found'' otherwise500 err
            | Inr docs \<Rightarrow> Response 200 (Listing (length docs) docs None)))"

definition createPublisher :: "('b \<Rightarrow> error + 'a) \<Rightarrow> nat \<Rightarrow> 'b \<Rightarrow> 'a response" where
  "createPublisher create state body =
     (if state \<noteq> 1
      then Response 503 (Failure ''Database not connected - cannot create publisher'')
      else (case create body of
              Inr doc \<Rightarrow> Response 201 (Item (Some doc) None)
            | Inl err \<Rightarrow> onValidationError otherwise500 err))"

definition updatePublisher ::
  "(string \<Rightarrow> error + 'a option) \<Rightarrow> (string \<Rightarrow> 'b \<Rightarrow> error + 'a option) \<Rightarrow> nat \<Rightarrow> string \<Rightarrow> 'b \<Rightarrow>
     'a response" where
  "updatePublisher findById findByIdAndUpdate state i body =
     (if state \<noteq> 1
      then Response 503 (Failure ''Database not connected - cannot update publisher'')
      else (case findById i of
              Inl err \<Rightarrow>
                onCastError ''Publisher not found'' (onValidationError otherwise500) err
            | Inr None \<Rightarrow> Response 404 (Failure ''Publisher not found'')
            | Inr (Some found) \<Rightarrow>
                (case findByIdAndUpdate i body of
                   Inl err \<Rightarrow>
                     onCastError ''Publisher not found'' (onValidationError otherwise500) err
                 | Inr doc \<Rightarrow> Response 200 (Item doc None))))"

definition deletePublisher ::
  "(string \<Rightarrow> error + 'a option) \<Rightarrow> (string \<Rightarrow> error + unit) \<Rightarrow> nat \<Rightarrow> string \<Rightarrow> 'a response" where
  "deletePublisher findById findByIdAndDelete state i =
     (if state \<noteq> 1
      then Response 503 (Failure ''Database not connected - cannot delete publisher'')
      else (case findById i of
              Inl err \<Rightarrow> onCastError ''Publisher not found'' otherwise500 err
            | Inr None \<Rightarrow> Response 404 (Failure ''Publisher not found'')
            | Inr (Some found) \<Rightarrow>
                (case findByIdAndDelete i of
                   Inl err \<Rightarrow> onCastError ''Publisher not found'' otherwise500 err
                 | Inr u \<Rightarrow> Response 200 (Emptied ''Publisher deleted successfully''))))"

section \<open>Sample inputs\<close>

text \<open>
  Concrete requests and stores, used where a property is evaluated: one book with the
  default rating fields, one author, a connected environment, and the bodies and query
  strings of a few requests.
\<close>

definition bookA :: oid where "bookA = ''aaaaaaaaaaaaaaaaaaaaaaaa''"
definition bookE :: oid where "bookE = ''eeeeeeeeeeeeeeeeeeeeeeee''"
definition authorB :: oid where "authorB = ''bbbbbbbbbbbbbbbbbbbbbbbb''"
definition userC :: oid where "userC = ''cccccccccccccccccccccccc''"
definition userD :: oid where "userD = ''dddddddddddddddddddddddd''"
definition review1 :: oid where "review1 = ''000000000000000000000001''"
definition review2 :: oid where "review2 = ''000000000000000000000002''"

definition sampleBook :: book_doc where
  "sampleBook =
     \<lparr> b_id = bookA, b_title = ''B'', b_author = authorB, averageRating = 0, ratingCount = 0,
       b_createdAt = 10, b_updatedAt = 10 \<rparr>"

definition sampleAuthor :: author_doc where
  "sampleAuthor =
     \<lparr> a_id = authorB, firstName = ''John'', lastName = ''Doe'', penName = None,
       bio = Some ''A famous test author'', birthDate = None, deathDate = None,
       nationality = Some ''American'', website = None, email = None, phone = None,
       profileImage = None, genres = [''Fiction'', ''Mystery''], languages = [], awards = [],
       socialMedia = \<lparr> twitter = None, facebook = None, instagram = None, linkedin = None \<rparr>,
       booksPublished = 0, a_status = ''Active'', createdBy = None,
       a_createdAt = 10, a_updatedAt = 10 \<rparr>"

definition emptyStore :: db where
  "emptyStore = \<lparr> reviews = [], books = [sampleBook], authors = [sampleAuthor], console = [] \<rparr>"

definition onlineEnv :: env where
  "onlineEnv =
     \<lparr> readyState = 1, now = 100, newId = review1, bookFault = NoFault, authorFault = NoFault \<rparr>"

definition noBody :: review_body where
  "noBody =
     \<lparr> req_title = None, req_content = None, req_rating = None, req_book = None,
       req_author = None, req_reviewer = None, req_helpful = None, req_status = None,
       req_moderatedBy = None, req_moderatedAt = None, req_moderationReason = None,
       req_createdAt = None, req_updatedAt = None \<rparr>"

text \<open>A review of the sample book with rating 4, by the first user.\<close>

definition bookReviewBody :: review_body where
  "bookReviewBody =
     noBody\<lparr> req_title := Some ''Great Book!'', req_content := Some ''I enjoyed it.'',
             req_rating := Some 4, req_book := Some bookA, req_reviewer := Some userC \<rparr>"

text \<open>A review of the sample author with rating 5, by the first user.\<close>

definition authorReviewBody :: review_body where
  "authorReviewBody =
     noBody\<lparr> req_title := Some ''Great Author!'', req_content := Some ''I enjoyed them.'',
             req_rating := Some 5, req_author := Some authorB, req_reviewer := Some userC \<rparr>"

text \<open>A stored review, for the list handlers.\<close>

definition storedReview :: "oid \<Rightarrow> string \<Rightarrow> int \<Rightarrow> review" where
  "storedReview i st t =
     \<lparr> rid = i, title = ''Great Book!'', content = ''I enjoyed it.'', rating = 4,
       book = Some bookA, author = None, reviewer = userC, helpful = 0, status = st,
       moderatedBy = None, moderatedAt = None, moderationReason = None,
       createdAt = t, updatedAt = t \<rparr>"

definition noRegExp :: "string \<Rightarrow> (string \<Rightarrow> bool) option" where
  "noRegExp p = None"

text \<open>Query strings: \<open>?page=5&limit=2\<close>, \<open>?limit=500\<close>, \<open>?sortBy=price\<close>.\<close>

definition pageFiveOfTwo :: "string \<Rightarrow> string option" where
  "pageFiveOfTwo = map_of [(''page'', ''5''), (''limit'', ''2'')]"

definition limitFiveHundred :: "string \<Rightarrow> string option" where
  "limitFiveHundred = map_of [(''limit'', ''500'')]"

definition sortByPrice :: "string \<Rightarrow> string option" where
  "sortByPrice = map_of [(''sortBy'', ''price'')]"

text \<open>
  A collection of \<open>n\<close> published reviews of the sample book, each with an identifier
  and a reviewer of its own, the newest first.
\<close>

definition numberedId :: "char \<Rightarrow> nat \<Rightarrow> oid" where
  "numberedId c n =
     replicate 21 c @ map (\<lambda>k. ''0123456789'' ! ((n div k) mod 10)) [100, 10, 1]"

definition numberedReview :: "nat \<Rightarrow> review" where
  "numberedReview n =
     (storedReview (numberedId CHR ''0'' n) ''Published'' (1000 - int n))
       \<lparr> reviewer := numberedId CHR ''c'' n \<rparr>"

definition manyReviews :: "nat \<Rightarrow> review list" where
  "manyReviews n = map numberedReview [0 ..< n]"


definition authorReview :: review where
  "authorReview =
     \<lparr> rid = review1, title = ''Great Author!'', content = ''I enjoyed them.'', rating = 5,
       book = None, author = Some authorB, reviewer = userC, helpful = 0,
       status = ''Published'', moderatedBy = None, moderatedAt = None,
       moderationReason = None, createdAt = 100, updatedAt = 100 \<rparr>"

definition authorReviewed :: db where
  "authorReviewed = emptyStore\<lparr> reviews := [authorReview] \<rparr>"

text \<open>The same store with a second author, who has no review.\<close>

definition authorF :: oid where "authorF = ''ffffffffffffffffffffffff''"

definition otherAuthor :: author_doc where
  "otherAuthor = sampleAuthor\<lparr> a_id := authorF, firstName := ''Jane'' \<rparr>"

definition twoAuthors :: db where
  "twoAuthors = authorReviewed\<lparr> authors := [sampleAuthor, otherAuthor] \<rparr>"

text \<open>A review of a book that is not in the store, as a body and as the document saved.\<close>

definition missingBookBody :: review_body where
  "missingBookBody = bookReviewBody\<lparr> req_book := Some bookE \<rparr>"

definition missingBookReview :: review where
  "missingBookReview = (storedReview review1 ''Published'' 100)\<lparr> book := Some bookE \<rparr>"

definition mixedReviews :: "review list" where
  "mixedReviews =
     [storedReview (numberedId CHR ''0'' 1) ''Published'' 100,
      storedReview (numberedId CHR ''0'' 2) ''Hidden'' 200,
      storedReview (numberedId CHR ''0'' 3) ''Published'' 300,
      (storedReview (numberedId CHR ''0'' 4) ''Published'' 400)\<lparr> book := Some bookE \<rparr>,
      storedReview (numberedId CHR ''0'' 5) ''Pending'' 500,
      storedReview (numberedId CHR ''0'' 6) ''Flagged'' 600]"

text \<open>
  A consistent store: the sample book holds the mean 4 and the count 1 of its one
  published review.
\<close>

definition ratedStore :: db where
  "ratedStore =
     \<lparr> reviews = [storedReview review1 ''Published'' 100],
       books = [sampleBook\<lparr> averageRating := 4, ratingCount := 1 \<rparr>],
       authors = [sampleAuthor], console = [] \<rparr>"

text \<open>
  An environment whose store is unreachable, one whose aggregation for a book fails and
  one whose write to an author fails.
\<close>

definition offlineEnv :: env where
  "offlineEnv = onlineEnv\<lparr> readyState := 0 \<rparr>"

definition failingEnv :: env where
  "failingEnv = onlineEnv\<lparr> bookFault := AggregateRejects \<rparr>"

definition authorFailingEnv :: env where
  "authorFailingEnv = onlineEnv\<lparr> authorFault := UpdateRejects \<rparr>"

section \<open>Properties\<close>

lemma parseInt_examples:
  "parseInt (Some ''25'') (Some 10) = Finite 25 \<and>
   parseInt (Some '' -7px'') (Some 10) = Finite (- 7) \<and>
   parseInt (Some ''abc'') (Some 10) = NaN \<and>
   parseInt None (Some 10) = NaN \<and>
   parseInt (Some ''0x1F'') None = Finite 31 \<and>
   parseInt (Some ''0x1F'') (Some 10) = Finite 0 \<and>
   parseInt (Some ''9007199254740993'') (Some 10) = Finite 9007199254740992"
  by code_simp

subsection \<open>Numbers that are exact\<close>













lemma ceil_div_eq: "\<lceil>rat_of_int n / rat_of_int k\<rceil> = - ((- n) div k)"
  by (rule ceiling_divide_eq_div)

lemma ceil_div_covers:
  assumes "1 \<le> k"
  shows "n \<le> \<lceil>rat_of_int n / rat_of_int k\<rceil> * k"
proof -
  have "(- n) div k * k + (- n) mod k = - n" by simp
  moreover have "0 \<le> (- n) mod k" using assms by simp
  ultimately have "(- n) div k * k \<le> - n" by linarith
  then show ?thesis by (simp add: ceil_div_eq)
qed

lemma ceil_div_nonneg: "0 \<le> n \<Longrightarrow> 1 \<le> k \<Longrightarrow> 0 \<le> \<lceil>rat_of_int n / rat_of_int k\<rceil>"
  using div_nonpos_pos_le0[of "- n" k] by (simp add: ceil_div_eq)


subsection \<open>Pagination\<close>

lemma skipDocs_drop: "skipDocs k xs = drop (nat k) xs"
proof (induction xs arbitrary: k)
  case Nil
  then show ?case by simp
next
  case (Cons x xs)
  show ?case
  proof (cases "k \<le> 0")
    case True
    then show ?thesis by simp
  next
    case False
    then have "nat k = Suc (nat (k - 1))" by simp
    then show ?thesis using False Cons by simp
  qed
qed

lemma limitDocs_take: "limitDocs k xs = take (nat k) xs"
proof (induction xs arbitrary: k)
  case Nil
  then show ?case by simp
next
  case (Cons x xs)
  show ?case
  proof (cases "k \<le> 0")
    case True
    then show ?thesis by simp
  next
    case False
    then have "nat k = Suc (nat (k - 1))" by simp
    then show ?thesis using False Cons by simp
  qed
qed

lemma slice_take_drop:
  "slice limit skip docs =
     (if skip < 0 then Inl StorageError
      else if limit = 0 then Inr (drop (nat skip) docs)
      else Inr (take (nat limit) (drop (nat skip) docs)))"
  by (simp add: slice_def skipDocs_drop limitDocs_take)














lemma concat_pages:
  "concat (map (\<lambda>p. take L (drop (p * L) xs)) [0 ..< N]) = take (N * L) xs"
proof (induction N)
  case 0
  then show ?case by simp
next
  case (Suc N)
  have "take (N * L) xs @ take L (drop (N * L) xs) = take (N * L + L) xs"
    by (simp add: take_add)
  then show ?case using Suc by (simp add: add.commute)
qed

lemma slice_page:
  assumes "1 \<le> L"
  shows "slice L ((int (Suc p) - 1) * L) docs = Inr (take (nat L) (drop (p * nat L) docs))"
proof -
  have "nat (int p * L) = p * nat L" using assms by (simp add: nat_mult_distrib)
  moreover have "0 \<le> int p * L" by (rule mult_nonneg_nonneg) (use assms in simp_all)
  then have "\<not> int p * L < 0" by linarith
  ultimately show ?thesis using assms by (simp add: slice_take_drop)
qed

text \<open>
  The pages of a result, as the store cuts them for a page size of at least 1 and the
  pages from 1 to the last, are the result: nothing is left out and nothing comes twice.
\<close>

theorem pages_partition_the_result:
  assumes L: "1 \<le> L"
  shows "concat (map (\<lambda>p. case slice L ((int p - 1) * L) docs of
                             Inr items \<Rightarrow> items
                           | Inl err \<Rightarrow> [])
                   [1 ..< Suc (nat \<lceil>rat_of_int (int (length docs)) / rat_of_int L\<rceil>)]) = docs"
proof -
  define N where "N = nat \<lceil>rat_of_int (int (length docs)) / rat_of_int L\<rceil>"
  have "int (length docs) \<le> \<lceil>rat_of_int (int (length docs)) / rat_of_int L\<rceil> * L"
    by (rule ceil_div_covers[OF L])
  then have "int (length docs) \<le> int N * L"
    using L ceil_div_nonneg[of "int (length docs)" L] unfolding N_def by simp
  then have "int (length docs) \<le> int (N * nat L)" using L by simp
  then have cover: "length docs \<le> N * nat L" by linarith
  have "map (\<lambda>p. case slice L ((int p - 1) * L) docs of Inr items \<Rightarrow> items | Inl err \<Rightarrow> [])
          [1 ..< Suc N] =
        map (\<lambda>p. take (nat L) (drop (p * nat L) docs)) [0 ..< N]"
  proof -
    have "[1 ..< Suc N] = map Suc [0 ..< N]" by (simp only: map_Suc_upt One_nat_def)
    then show ?thesis by (simp only: map_map o_def slice_page[OF L] sum.case)
  qed
  then show ?thesis
    unfolding N_def[symmetric] using cover by (simp add: concat_pages)
qed

theorem pages_partition_the_result_witness:
  "(1 :: int) \<le> 2 \<and>
   concat (map (\<lambda>p. case slice 2 ((int p - 1) * 2) [10, 20, 30, 40, 50 :: nat] of
                        Inr items \<Rightarrow> items
                      | Inl err \<Rightarrow> [])
             [1 ..< Suc (nat \<lceil>rat_of_int (int (length [10, 20, 30, 40, 50 :: nat])) / rat_of_int 2\<rceil>)]) =
     [10, 20, 30, 40, 50]"
proof -
  have h: "(1 :: int) \<le> 2" by simp
  show ?thesis using h pages_partition_the_result[OF h, of "[10, 20, 30, 40, 50 :: nat]"] by blast
qed

text \<open>Without \<open>page\<close> and \<open>limit\<close> the page is 1 and the page size is 10.\<close>

theorem absent_page_and_limit_take_their_defaults:
  assumes "q ''page'' = None" and "q ''limit'' = None"
  shows "pageOf q = Finite 1 \<and> limitOf q = Finite 10"
  using assms by (simp add: pageOf_def limitOf_def parseInt_def orDefault_def)

theorem absent_page_and_limit_take_their_defaults_witness:
  "sortByPrice ''page'' = None \<and> sortByPrice ''limit'' = None \<and>
   pageOf sortByPrice = Finite 1 \<and> limitOf sortByPrice = Finite 10"
proof -
  have h1: "sortByPrice ''page'' = None" by (simp add: sortByPrice_def)
  have h2: "sortByPrice ''limit'' = None" by (simp add: sortByPrice_def)
  show ?thesis using h1 h2 absent_page_and_limit_take_their_defaults[OF h1 h2] by blast
qed

text \<open>
  The review and the author handlers sort by a field of their fixed lists, whatever
  \<open>sortBy\<close> is.
\<close>

theorem review_and_author_sort_fields_are_allow_listed:
  "fst (reviewSortOptions q) \<in> set [''title'', ''rating'', ''helpful'', ''createdAt''] \<and>
   fst (authorSortOptions q) \<in> set [''firstName'', ''lastName'', ''birthDate'', ''createdAt'']"
  by (simp add: reviewSortOptions_def authorSortOptions_def Let_def split: option.splits)

subsection \<open>Sorting\<close>

lemma mset_insertBy: "mset (insertBy le x xs) = add_mset x (mset xs)"
  by (induction xs) auto

lemma mset_sortWith: "mset (sortWith le xs) = mset xs"
  by (induction xs) (auto simp: sortWith_def mset_insertBy)

lemma set_insertBy: "set (insertBy le x xs) = insert x (set xs)"
  by (induction xs) auto

lemma sorted_insertBy:
  assumes total: "\<And>a b. le a b \<or> le b a"
    and trans: "\<And>a b c. le a b \<Longrightarrow> le b c \<Longrightarrow> le a c"
  shows "sorted_wrt le xs \<Longrightarrow> sorted_wrt le (insertBy le x xs)"
proof (induction xs)
  case Nil
  then show ?case by simp
next
  case (Cons y ys)
  show ?case
  proof (cases "le x y")
    case True
    then show ?thesis using Cons.prems trans by auto
  next
    case False
    then have "le y x" using total by blast
    then show ?thesis using Cons False by (auto simp: set_insertBy)
  qed
qed

lemma sorted_sortWith:
  assumes total: "\<And>a b. le a b \<or> le b a"
    and trans: "\<And>a b c. le a b \<Longrightarrow> le b c \<Longrightarrow> le a c"
  shows "sorted_wrt le (sortWith le xs)"
proof (induction xs)
  case Nil
  then show ?case by (simp add: sortWith_def)
next
  case (Cons x xs)
  have "sortWith le (x # xs) = insertBy le x (sortWith le xs)" by (simp add: sortWith_def)
  then show ?case using sorted_insertBy[OF total trans Cons] by simp
qed

lemma sortReviews_newest_first_eq:
  "sortReviews (''createdAt'', - 1) rs = sortWith (\<lambda>x y. createdAt y \<le> createdAt x) rs"
  by (simp add: sortReviews_def reviewLe_def)

lemma sortReviews_newest_first:
  "sorted_wrt (\<lambda>x y. createdAt y \<le> createdAt x) (sortReviews (''createdAt'', - 1) rs)"
  unfolding sortReviews_newest_first_eq by (rule sorted_sortWith) auto

lemma mset_sortReviews: "mset (sortReviews so rs) = mset rs"
  by (simp add: sortReviews_def mset_sortWith)

lemma castObjectId_pattern: "castObjectId s = Some b \<Longrightarrow> matchesObjectIdPattern s"
  by (simp add: castObjectId_def split: if_splits)

lemma Review_find_book_published:
  assumes "castObjectId bookId = Some b"
  shows "Review_find \<lparr> f_search = None, f_book = Some bookId, f_author = None,
                       f_reviewer = None, f_rating = None, f_status = Some ''Published'' \<rparr> rs =
         Inr (filter (\<lambda>r. book r = Some b \<and> status r = ''Published'') rs)"
proof -
  have "reviewMatches \<lparr> f_search = None, f_book = Some bookId, f_author = None,
                         f_reviewer = None, f_rating = None, f_status = Some ''Published'' \<rparr> =
        (\<lambda>r. book r = Some b \<and> status r = ''Published'')"
    using assms by (simp add: fun_eq_iff reviewMatches_def refMatches_def)
  then show ?thesis
    using castObjectId_pattern[OF assms]
    by (simp add: Review_find_def filterCasts_def castable_def)
qed

text \<open>
  C10. For a book identifier, the per-book listing answers with exactly the reviews whose
  \<open>book\<close> is that book and whose status is Published (so none that is Pending, Hidden
  or Flagged), each as often as it is stored, newest first by \<open>createdAt\<close>. The store is
  connected and the identifier is one that casts to an ObjectId.
\<close>

theorem reviews_of_a_book_are_published_newest_first:
  assumes "castObjectId bookId = Some b"
  shows "\<exists>docs. getReviewsByBook 1 bookId rs = Response 200 (Listing (length docs) docs None) \<and>
           mset docs = mset (filter (\<lambda>r. book r = Some b \<and> status r = ''Published'') rs) \<and>
           set docs = {r \<in> set rs. book r = Some b \<and> status r = ''Published''} \<and>
           sorted_wrt (\<lambda>x y. createdAt y \<le> createdAt x) docs"
proof -
  let ?found = "filter (\<lambda>r. book r = Some b \<and> status r = ''Published'') rs"
  let ?docs = "sortReviews (''createdAt'', - 1) ?found"
  have "getReviewsByBook 1 bookId rs = Response 200 (Listing (length ?docs) ?docs None)"
    by (simp add: getReviewsByBook_def Review_find_book_published[OF assms] Let_def)
  moreover have m: "mset ?docs = mset ?found" by (rule mset_sortReviews)
  moreover have "set ?docs = {r \<in> set rs. book r = Some b \<and> status r = ''Published''}"
    using mset_eq_setD[OF m] by simp
  moreover have "sorted_wrt (\<lambda>x y. createdAt y \<le> createdAt x) ?docs"
    by (rule sortReviews_newest_first)
  ultimately show ?thesis by blast
qed

theorem reviews_of_a_book_are_published_newest_first_witness:
  "castObjectId ''AAAAAAAAAAAAAAAAAAAAAAAA'' = Some bookA \<and>
   (\<exists>docs. getReviewsByBook 1 ''AAAAAAAAAAAAAAAAAAAAAAAA'' mixedReviews =
              Response 200 (Listing (length docs) docs None) \<and>
            mset docs = mset (filter (\<lambda>r. book r = Some bookA \<and> status r = ''Published'')
                                mixedReviews) \<and>
            set docs = {r \<in> set mixedReviews. book r = Some bookA \<and> status r = ''Published''} \<and>
            sorted_wrt (\<lambda>x y. createdAt y \<le> createdAt x) docs) \<and>
   getReviewsByBook 1 ''AAAAAAAAAAAAAAAAAAAAAAAA'' mixedReviews =
     Response 200
       (Listing 2 [storedReview (numberedId CHR ''0'' 3) ''Published'' 300,
                   storedReview (numberedId CHR ''0'' 1) ''Published'' 100] None)"
proof -
  have h: "castObjectId ''AAAAAAAAAAAAAAAAAAAAAAAA'' = Some bookA" by code_simp
  have e: "getReviewsByBook 1 ''AAAAAAAAAAAAAAAAAAAAAAAA'' mixedReviews =
     Response 200
       (Listing 2 [storedReview (numberedId CHR ''0'' 3) ''Published'' 300,
                   storedReview (numberedId CHR ''0'' 1) ''Published'' 100] None)"
    by code_simp
  show ?thesis
    using h e reviews_of_a_book_are_published_newest_first[OF h, of mixedReviews] by blast
qed

subsection \<open>The author side of the recomputation\<close>

text \<open>
  C9, as the claim states it, fails: the update the author-side recomputation issues
  does persist something on the author, the \<open>updatedAt\<close> of \<open>timestamps: true\<close>.
\<close>

theorem author_recomputation_changes_updatedAt:
  "calculateAuthorRating NoFault 200 authorB authorReviewed =
     Inr (authorReviewed\<lparr> authors := [sampleAuthor\<lparr> a_updatedAt := 200 \<rparr>] \<rparr>) \<and>
   sampleAuthor\<lparr> a_updatedAt := 200 \<rparr> \<noteq> sampleAuthor \<and>
   authors (authorReviewed\<lparr> authors := [sampleAuthor\<lparr> a_updatedAt := 200 \<rparr>] \<rparr>) \<noteq>
     authors authorReviewed"
  by code_simp

lemma no_published_review:
  "(filter (\<lambda>r. target r = Some i \<and> status r = ''Published'') rs = []) =
   (\<not> list_ex (\<lambda>r. target r = Some i \<and> status r = ''Published'') rs)"
  by (simp add: filter_empty_conv list_ex_iff)

text \<open>
  C9, amended. An invocation of the author-side recomputation that completes leaves the
  reviews, the books and the log as they were. When the author has a published review,
  the author with that identifier is stored with its \<open>updatedAt\<close> set to the time of the
  update and is otherwise as it was; every other author is as it was; and without a
  published review every author is as it was. An author document has the paths of
  \<open>authorSchema\<close> and no other: there is no rating to store.
\<close>

theorem author_recomputation_stores_no_rating:
  assumes "calculateAuthorRating flt t authorId d = Inr d'"
  shows "reviews d' = reviews d \<and> books d' = books d \<and> console d' = console d \<and>
         authors d' =
           map (\<lambda>a. if a_id a = authorId \<and>
                        list_ex (\<lambda>r. author r = Some authorId \<and> status r = ''Published'')
                          (reviews d)
                     then a\<lparr> a_updatedAt := t \<rparr> else a) (authors d)"
proof (cases "list_ex (\<lambda>r. author r = Some authorId \<and> status r = ''Published'') (reviews d)")
  case True
  then have "filter (\<lambda>r. author r = Some authorId \<and> status r = ''Published'') (reviews d) \<noteq> []"
    by (simp add: no_published_review)
  then have "d' = d\<lparr> authors := Author_findByIdAndUpdate t authorId
                 \<lparr> g_id = authorId,
                   g_averageRating =
                     sum_list (map rating (filter (\<lambda>r. author r = Some authorId \<and>
                        status r = ''Published'') (reviews d))) /
                     of_nat (length (filter (\<lambda>r. author r = Some authorId \<and>
                        status r = ''Published'') (reviews d))),
                   g_ratingCount = length (filter (\<lambda>r. author r = Some authorId \<and>
                        status r = ''Published'') (reviews d)) \<rparr> (authors d) \<rparr>"
    using assms
    by (simp add: calculateAuthorRating_def aggregateRatings_def Let_def split: if_splits)
  then show ?thesis using True by (simp add: Author_findByIdAndUpdate_def)
next
  case False
  then have "filter (\<lambda>r. author r = Some authorId \<and> status r = ''Published'') (reviews d) = []"
    by (simp add: no_published_review)
  then have "d' = d"
    using assms
    by (simp add: calculateAuthorRating_def aggregateRatings_def Let_def split: if_splits)
  then show ?thesis using False by simp
qed

theorem author_recomputation_stores_no_rating_witness:
  "calculateAuthorRating NoFault 200 authorB twoAuthors =
     Inr (twoAuthors\<lparr> authors := [sampleAuthor\<lparr> a_updatedAt := 200 \<rparr>, otherAuthor] \<rparr>) \<and>
   list_ex (\<lambda>r. author r = Some authorB \<and> status r = ''Published'') (reviews twoAuthors) \<and>
   authors (twoAuthors\<lparr> authors := [sampleAuthor\<lparr> a_updatedAt := 200 \<rparr>, otherAuthor] \<rparr>) =
     map (\<lambda>a. if a_id a = authorB \<and>
                  list_ex (\<lambda>r. author r = Some authorB \<and> status r = ''Published'')
                    (reviews twoAuthors)
               then a\<lparr> a_updatedAt := 200 \<rparr> else a) (authors twoAuthors) \<and>
   calculateAuthorRating NoFault 200 authorF twoAuthors = Inr twoAuthors \<and>
   \<not> list_ex (\<lambda>r. author r = Some authorF \<and> status r = ''Published'') (reviews twoAuthors) \<and>
   authors twoAuthors =
     map (\<lambda>a. if a_id a = authorF \<and>
                  list_ex (\<lambda>r. author r = Some authorF \<and> status r = ''Published'')
                    (reviews twoAuthors)
               then a\<lparr> a_updatedAt := 200 \<rparr> else a) (authors twoAuthors)"
proof -
  have h: "calculateAuthorRating NoFault 200 authorB twoAuthors =
     Inr (twoAuthors\<lparr> authors := [sampleAuthor\<lparr> a_updatedAt := 200 \<rparr>, otherAuthor] \<rparr>)"
    by code_simp
  have p: "list_ex (\<lambda>r. author r = Some authorB \<and> status r = ''Published'') (reviews twoAuthors)"
    by code_simp
  have g: "calculateAuthorRating NoFault 200 authorF twoAuthors = Inr twoAuthors"
    by code_simp
  have n: "\<not> list_ex (\<lambda>r. author r = Some authorF \<and> status r = ''Published'') (reviews twoAuthors)"
    by code_simp
  from author_recomputation_stores_no_rating[OF h]
  have a: "authors (twoAuthors\<lparr> authors := [sampleAuthor\<lparr> a_updatedAt := 200 \<rparr>, otherAuthor] \<rparr>) =
     map (\<lambda>a. if a_id a = authorB \<and>
                  list_ex (\<lambda>r. author r = Some authorB \<and> status r = ''Published'')
                    (reviews twoAuthors)
               then a\<lparr> a_updatedAt := 200 \<rparr> else a) (authors twoAuthors)"
    by (rule conjunct2[OF conjunct2[OF conjunct2]])
  from author_recomputation_stores_no_rating[OF g]
  have b: "authors twoAuthors =
     map (\<lambda>a. if a_id a = authorF \<and>
                  list_ex (\<lambda>r. author r = Some authorF \<and> status r = ''Published'')
                    (reviews twoAuthors)
               then a\<lparr> a_updatedAt := 200 \<rparr> else a) (authors twoAuthors)"
    by (rule conjunct2[OF conjunct2[OF conjunct2]])
  show ?thesis by (intro conjI h p a g n b)
qed

subsection \<open>Failures of the recomputation\<close>

lemma reviews_calculateBookRating:
  "calculateBookRating flt t b d = Inr d' \<Longrightarrow> reviews d' = reviews d"
  by (auto simp: calculateBookRating_def split: if_splits list.splits)

lemma reviews_calculateAuthorRating:
  "calculateAuthorRating flt t a d = Inr d' \<Longrightarrow> reviews d' = reviews d"
  by (auto simp: calculateAuthorRating_def split: if_splits list.splits)

lemma reviews_updateRatings: "reviews (updateRatings msg e doc d) = reviews d"
  by (auto simp: updateRatings_def reviews_calculateBookRating reviews_calculateAuthorRating
      split: option.splits sum.splits)

lemma newReview_faults:
  "newReview (e\<lparr> bookFault := f, authorFault := g \<rparr>) body = newReview e body"
  by (simp add: newReview_def split: option.splits)

lemma Review_create_faults:
  "fst (Review_create (e\<lparr> bookFault := f, authorFault := g \<rparr>) body d) =
     fst (Review_create e body d) \<and>
   reviews (snd (Review_create (e\<lparr> bookFault := f, authorFault := g \<rparr>) body d)) =
     reviews (snd (Review_create e body d))"
  by (simp add: Review_create_def newReview_faults postSave_def reviews_updateRatings
      split: option.splits)

lemma createReview_faults:
  "fst (createReview (e\<lparr> bookFault := f, authorFault := g \<rparr>) body d) =
     fst (createReview e body d) \<and>
   reviews (snd (createReview (e\<lparr> bookFault := f, authorFault := g \<rparr>) body d)) =
     reviews (snd (createReview e body d))"
proof -
  obtain r1 d1 where a: "Review_create e body d = (r1, d1)" by (cases "Review_create e body d")
  obtain r2 d2 where b: "Review_create (e\<lparr> bookFault := f, authorFault := g \<rparr>) body d = (r2, d2)"
    by (cases "Review_create (e\<lparr> bookFault := f, authorFault := g \<rparr>) body d")
  from Review_create_faults[where e = e and f = f and g = g and body = body and d = d] a b
  have "r2 = r1" "reviews d2 = reviews d1"
    by simp_all
  then show ?thesis
    by (simp add: createReview_def a b split: sum.splits)
qed

lemma Book_findByIdAndUpdate_missing:
  assumes "list_all (\<lambda>k. b_id k \<noteq> i) bs"
  shows "Book_findByIdAndUpdate t i g bs = bs"
  using assms by (induction bs) (simp_all add: Book_findByIdAndUpdate_def)

lemma Author_findByIdAndUpdate_missing:
  assumes "list_all (\<lambda>k. a_id k \<noteq> i) as"
  shows "Author_findByIdAndUpdate t i g as = as"
  using assms by (induction as) (simp_all add: Author_findByIdAndUpdate_def)

lemma calculateBookRating_missing:
  assumes "list_all (\<lambda>k. b_id k \<noteq> i) (books s)"
  shows "calculateBookRating NoFault t i s = Inr s"
  by (simp add: calculateBookRating_def Book_findByIdAndUpdate_missing[OF assms]
      split: list.splits)

lemma calculateAuthorRating_missing:
  assumes "list_all (\<lambda>k. a_id k \<noteq> i) (authors s)"
  shows "calculateAuthorRating NoFault t i s = Inr s"
  by (simp add: calculateAuthorRating_def Author_findByIdAndUpdate_missing[OF assms]
      split: list.splits)

lemma postSave_missing:
  assumes "bookFault e = NoFault" and "authorFault e = NoFault"
    and "list_all (\<lambda>k. book doc \<noteq> Some (b_id k)) (books s)"
    and "list_all (\<lambda>k. author doc \<noteq> Some (a_id k)) (authors s)"
  shows "postSave e doc s = s"
proof -
  have b: "calculateBookRating NoFault (now e) i s = Inr s" if "book doc = Some i" for i
  proof -
    have "list_all (\<lambda>k. b_id k \<noteq> i) (books s)"
      using assms(3) that by (simp add: list_all_iff) metis
    then show ?thesis by (rule calculateBookRating_missing)
  qed
  have a: "calculateAuthorRating NoFault (now e) i s = Inr s" if "author doc = Some i" for i
  proof -
    have "list_all (\<lambda>k. a_id k \<noteq> i) (authors s)"
      using assms(4) that by (simp add: list_all_iff) metis
    then show ?thesis by (rule calculateAuthorRating_missing)
  qed
  show ?thesis
    using a b by (simp add: postSave_def updateRatings_def assms(1,2) split: option.splits)
qed

text \<open>
  C4, as the claim states it, fails for the first failure it names. A review of a book
  that is not in the store is created: \<open>Book.findByIdAndUpdate\<close> matches no document
  and resolves to \<open>null\<close>, which is no exception. Nothing is caught and nothing is
  logged; the response is 201 and the store holds the review and is otherwise as it was.
\<close>

theorem recomputation_for_a_missing_target_logs_nothing:
  "createReview onlineEnv missingBookBody emptyStore =
     (Response 201 (Item (Some missingBookReview) None),
      emptyStore\<lparr> reviews := [missingBookReview] \<rparr>) \<and>
   book missingBookReview = Some bookE \<and>
   list_all (\<lambda>k. b_id k \<noteq> bookE) (books emptyStore) \<and>
   console (snd (createReview onlineEnv missingBookBody emptyStore)) = []"
  by code_simp

text \<open>
  C4, amended. A recomputation fails when the store rejects its aggregation or its
  update. Such a failure does not change what the caller of the review mutation is told,
  nor the reviews stored: the response of \<open>createReview\<close> and the review collection it
  leaves are those of the same request without any fault. \<open>updateReview\<close> and
  \<open>deleteReview\<close> trigger no recomputation, so their whole outcome is independent of
  the faults. The hook catches the failure and logs it: when the book side fails, the
  store is left as it was but for the logged line; when the author side fails, the store
  is what the book side left, with the logged line. A target that is not in the store is
  no failure: without a fault, and with neither the book nor the author of the review in
  the store, the hook leaves the store as it was, the log included.
\<close>

theorem recomputation_failure_is_caught_and_logged:
  "fst (createReview e body d) =
     fst (createReview (e\<lparr> bookFault := NoFault, authorFault := NoFault \<rparr>) body d) \<and>
   reviews (snd (createReview e body d)) =
     reviews (snd (createReview (e\<lparr> bookFault := NoFault, authorFault := NoFault \<rparr>) body d)) \<and>
   updateReview e i body d =
     updateReview (e\<lparr> bookFault := NoFault, authorFault := NoFault \<rparr>) i body d \<and>
   deleteReview e i d =
     deleteReview (e\<lparr> bookFault := NoFault, authorFault := NoFault \<rparr>) i d \<and>
   (book doc = Some b \<and> calculateBookRating (bookFault e) (now e) b s = Inl err \<longrightarrow>
      postSave e doc s =
        s\<lparr> console := console s @ [''Error updating ratings after review save:''] \<rparr>) \<and>
   ((case book doc of
       Some b \<Rightarrow> calculateBookRating (bookFault e) (now e) b s
     | None \<Rightarrow> Inr s) = Inr s1 \<and>
    author doc = Some a \<and>
    calculateAuthorRating (authorFault e) (now e) a s1 = Inl err \<longrightarrow>
      postSave e doc s =
        s1\<lparr> console := console s1 @ [''Error updating ratings after review save:''] \<rparr>) \<and>
   (bookFault e = NoFault \<and> authorFault e = NoFault \<and>
    list_all (\<lambda>k. book doc \<noteq> Some (b_id k)) (books s) \<and>
    list_all (\<lambda>k. author doc \<noteq> Some (a_id k)) (authors s) \<longrightarrow>
      postSave e doc s = s)"
proof -
  have "bookFault e = NoFault \<and> authorFault e = NoFault \<and>
    list_all (\<lambda>k. book doc \<noteq> Some (b_id k)) (books s) \<and>
    list_all (\<lambda>k. author doc \<noteq> Some (a_id k)) (authors s) \<longrightarrow>
      postSave e doc s = s"
    using postSave_missing[of e doc s] by blast
  then show ?thesis
    using createReview_faults[where e = e and f = NoFault and g = NoFault and body = body and d = d]
    by (simp add: updateReview_def deleteReview_def postSave_def updateRatings_def)
qed

theorem recomputation_failure_is_caught_and_logged_witness:
  "book (storedReview review1 ''Published'' 100) = Some bookA \<and>
   calculateBookRating (bookFault failingEnv) (now failingEnv) bookA
     (emptyStore\<lparr> reviews := [storedReview review1 ''Published'' 100] \<rparr>) = Inl StorageError \<and>
   postSave failingEnv (storedReview review1 ''Published'' 100)
     (emptyStore\<lparr> reviews := [storedReview review1 ''Published'' 100] \<rparr>) =
     emptyStore\<lparr> reviews := [storedReview review1 ''Published'' 100],
                 console := [''Error updating ratings after review save:''] \<rparr> \<and>
   fst (createReview failingEnv bookReviewBody emptyStore) =
     Response 201 (Item (Some (storedReview review1 ''Published'' 100)) None) \<and>
   snd (createReview failingEnv bookReviewBody emptyStore) =
     emptyStore\<lparr> reviews := [storedReview review1 ''Published'' 100],
                 console := [''Error updating ratings after review save:''] \<rparr> \<and>
   (case book authorReview of
      Some b \<Rightarrow> calculateBookRating (bookFault authorFailingEnv) (now authorFailingEnv) b
                  authorReviewed
    | None \<Rightarrow> Inr authorReviewed) = Inr authorReviewed \<and>
   author authorReview = Some authorB \<and>
   calculateAuthorRating (authorFault authorFailingEnv) (now authorFailingEnv) authorB
     authorReviewed = Inl StorageError \<and>
   postSave authorFailingEnv authorReview authorReviewed =
     authorReviewed\<lparr> console := [''Error updating ratings after review save:''] \<rparr> \<and>
   bookFault onlineEnv = NoFault \<and> authorFault onlineEnv = NoFault \<and>
   list_all (\<lambda>k. book missingBookReview \<noteq> Some (b_id k))
     (books (emptyStore\<lparr> reviews := [missingBookReview] \<rparr>)) \<and>
   list_all (\<lambda>k. author missingBookReview \<noteq> Some (a_id k))
     (authors (emptyStore\<lparr> reviews := [missingBookReview] \<rparr>)) \<and>
   postSave onlineEnv missingBookReview (emptyStore\<lparr> reviews := [missingBookReview] \<rparr>) =
     emptyStore\<lparr> reviews := [missingBookReview] \<rparr>"
proof -
  let ?doc = "storedReview review1 ''Published'' 100"
  let ?s = "emptyStore\<lparr> reviews := [?doc] \<rparr>"
  have h1: "book ?doc = Some bookA" by (simp add: storedReview_def)
  have h2: "calculateBookRating (bookFault failingEnv) (now failingEnv) bookA ?s = Inl StorageError"
    by (simp add: calculateBookRating_def failingEnv_def)
  have clean: "failingEnv\<lparr> bookFault := NoFault, authorFault := NoFault \<rparr> = onlineEnv"
    by (simp add: failingEnv_def onlineEnv_def)
  have ok: "fst (createReview onlineEnv bookReviewBody emptyStore) =
     Response 201 (Item (Some ?doc) None)"
    by code_simp
  have st: "snd (createReview failingEnv bookReviewBody emptyStore) =
     emptyStore\<lparr> reviews := [?doc], console := [''Error updating ratings after review save:''] \<rparr>"
    by code_simp
  note T = recomputation_failure_is_caught_and_logged[where e = failingEnv
      and body = bookReviewBody and d = emptyStore and i = review1 and doc = ?doc and b = bookA
      and s = ?s and err = StorageError and a = authorB and ?s1.0 = ?s]
  from T have "fst (createReview failingEnv bookReviewBody emptyStore) =
      fst (createReview (failingEnv\<lparr> bookFault := NoFault, authorFault := NoFault \<rparr>)
             bookReviewBody emptyStore)"
    by (rule conjunct1)
  then have f: "fst (createReview failingEnv bookReviewBody emptyStore) =
      Response 201 (Item (Some ?doc) None)"
    by (simp only: clean ok)
  from T h1 h2 have "postSave failingEnv ?doc ?s =
      ?s\<lparr> console := console ?s @ [''Error updating ratings after review save:''] \<rparr>"
    by blast
  then have p: "postSave failingEnv ?doc ?s =
      emptyStore\<lparr> reviews := [?doc], console := [''Error updating ratings after review save:''] \<rparr>"
    by (simp add: emptyStore_def)
  have g1: "(case book authorReview of
      Some b \<Rightarrow> calculateBookRating (bookFault authorFailingEnv) (now authorFailingEnv) b
                  authorReviewed
    | None \<Rightarrow> Inr authorReviewed) = Inr authorReviewed"
    by (simp add: authorReview_def)
  have g2: "author authorReview = Some authorB" by (simp add: authorReview_def)
  have g3: "calculateAuthorRating (authorFault authorFailingEnv) (now authorFailingEnv) authorB
     authorReviewed = Inl StorageError"
    by code_simp
  note U = recomputation_failure_is_caught_and_logged[where e = authorFailingEnv
      and body = authorReviewBody and d = emptyStore and i = review1 and doc = authorReview
      and b = bookA and s = authorReviewed and err = StorageError and a = authorB
      and ?s1.0 = authorReviewed]
  from U g1 g2 g3 have "postSave authorFailingEnv authorReview authorReviewed =
      authorReviewed\<lparr> console := console authorReviewed @
        [''Error updating ratings after review save:''] \<rparr>"
    by blast
  then have q: "postSave authorFailingEnv authorReview authorReviewed =
      authorReviewed\<lparr> console := [''Error updating ratings after review save:''] \<rparr>"
    by (simp add: authorReviewed_def emptyStore_def)
  let ?m = "emptyStore\<lparr> reviews := [missingBookReview] \<rparr>"
  have m1: "bookFault onlineEnv = NoFault" by (simp add: onlineEnv_def)
  have m2: "authorFault onlineEnv = NoFault" by (simp add: onlineEnv_def)
  have m3: "list_all (\<lambda>k. book missingBookReview \<noteq> Some (b_id k)) (books ?m)" by code_simp
  have m4: "list_all (\<lambda>k. author missingBookReview \<noteq> Some (a_id k)) (authors ?m)" by code_simp
  note V = recomputation_failure_is_caught_and_logged[where e = onlineEnv
      and body = missingBookBody and d = emptyStore and i = review1 and doc = missingBookReview
      and b = bookE and s = ?m and err = StorageError and a = authorB and ?s1.0 = ?m]
  from V m1 m2 m3 m4 have m5: "postSave onlineEnv missingBookReview ?m = ?m" by blast
  show ?thesis by (intro conjI h1 h2 p f st g1 g2 g3 q m1 m2 m3 m4 m5)
qed

subsection \<open>The aggregate after a create\<close>

lemma books_calculateAuthorRating:
  "calculateAuthorRating flt t a d = Inr d' \<Longrightarrow> books d' = books d"
  by (auto simp: calculateAuthorRating_def split: if_splits list.splits)

lemma calculateBookRating_consistent:
  assumes "filter (\<lambda>x. book x = Some b \<and> status x = ''Published'') (reviews d) \<noteq> []"
  shows "calculateBookRating NoFault t b d =
           Inr (d\<lparr> books := map (\<lambda>bk. if b_id bk = b
                 then bk\<lparr> averageRating :=
                            sum_list (map rating (filter (\<lambda>x. book x = Some b \<and> status x = ''Published'') (reviews d))) /
                            of_nat (length (filter (\<lambda>x. book x = Some b \<and> status x = ''Published'') (reviews d))),
                          ratingCount := length (filter (\<lambda>x. book x = Some b \<and> status x = ''Published'') (reviews d)),
                          b_updatedAt := t \<rparr>
                 else bk) (books d) \<rparr>)"
  using assms
  by (simp add: calculateBookRating_def aggregateRatings_def Let_def Book_findByIdAndUpdate_def)

lemma updateRatings_books:
  assumes pub: "filter (\<lambda>x. book x = Some b \<and> status x = ''Published'') (reviews d) \<noteq> []"
    and "book doc = Some b" and "bookFault e = NoFault"
  shows "books (updateRatings msg e doc d) =
         map (\<lambda>bk. if b_id bk = b
                 then bk\<lparr> averageRating :=
                            sum_list (map rating (filter (\<lambda>x. book x = Some b \<and> status x = ''Published'') (reviews d))) /
                            of_nat (length (filter (\<lambda>x. book x = Some b \<and> status x = ''Published'') (reviews d))),
                          ratingCount := length (filter (\<lambda>x. book x = Some b \<and> status x = ''Published'') (reviews d)),
                          b_updatedAt := now e \<rparr>
                 else bk) (books d)"
  using assms(2,3) calculateBookRating_consistent[OF pub, of "now e"]
  by (auto simp: updateRatings_def books_calculateAuthorRating split: option.splits sum.splits)

lemma createReview_created:
  assumes "createReview e body d = (Response 201 (Item (Some r) None), d')"
  shows "d' = postSave e r (d\<lparr> reviews := reviews d @ [r] \<rparr>)"
  using assms
  by (auto simp: createReview_def Review_create_def serverError_def otherwise500_def
      onDuplicateKey_def onValidationError_def
      split: if_splits option.splits sum.splits error.splits prod.splits)

lemma stored_after_update:
  assumes "bk \<in> set (map (\<lambda>k. if b_id k = b then k\<lparr> averageRating := m, ratingCount := n,
                                                      b_updatedAt := t \<rparr> else k) bs)"
    and "b_id bk = b"
  shows "averageRating bk = m \<and> ratingCount bk = n"
proof -
  from assms(1) obtain k where k: "k \<in> set bs"
    and bk: "bk = (if b_id k = b then k\<lparr> averageRating := m, ratingCount := n, b_updatedAt := t \<rparr> else k)"
    by auto
  show ?thesis
  proof (cases "b_id k = b")
    case True
    then show ?thesis using bk by simp
  next
    case False
    then show ?thesis using bk assms(2) by simp
  qed
qed

text \<open>
  What does hold of the aggregate: after \<open>createReview\<close> has stored a published review of
  a book, and the recomputation for the book did not fail, the book holds the mean and the
  count of its published reviews.
\<close>

theorem create_leaves_the_book_rating_consistent:
  assumes created: "createReview e body d = (Response 201 (Item (Some r) None), d')"
    and target: "book r = Some b"
    and published: "status r = ''Published''"
    and nofault: "bookFault e = NoFault"
    and stored: "bk \<in> set (books d')" "b_id bk = b"
  shows "averageRating bk =
           sum_list (map rating (filter (\<lambda>x. book x = Some b \<and> status x = ''Published'') (reviews d'))) /
           of_nat (length (filter (\<lambda>x. book x = Some b \<and> status x = ''Published'') (reviews d'))) \<and>
         ratingCount bk =
           length (filter (\<lambda>x. book x = Some b \<and> status x = ''Published'') (reviews d'))"
proof -
  define d1 where "d1 = d\<lparr> reviews := reviews d @ [r] \<rparr>"
  have d': "d' = updateRatings ''Error updating ratings after review save:'' e r d1"
    using createReview_created[OF created] by (simp add: postSave_def d1_def)
  have rs: "reviews d' = reviews d1" by (simp add: d' reviews_updateRatings)
  have pub: "filter (\<lambda>x. book x = Some b \<and> status x = ''Published'') (reviews d1) \<noteq> []"
    using target published by (simp add: d1_def)
  have "bk \<in> set (books (updateRatings ''Error updating ratings after review save:'' e r d1))"
    using stored(1) by (simp add: d')
  then show ?thesis
    unfolding updateRatings_books[OF pub target nofault] rs
    by (rule stored_after_update) (rule stored(2))
qed

theorem create_leaves_the_book_rating_consistent_witness:
  "createReview onlineEnv bookReviewBody emptyStore =
     (Response 201 (Item (Some (storedReview review1 ''Published'' 100)) None),
      emptyStore\<lparr> reviews := [storedReview review1 ''Published'' 100],
                  books := [sampleBook\<lparr> averageRating := 4, ratingCount := 1,
                                        b_updatedAt := 100 \<rparr>] \<rparr>) \<and>
   book (storedReview review1 ''Published'' 100) = Some bookA \<and>
   status (storedReview review1 ''Published'' 100) = ''Published'' \<and>
   bookFault onlineEnv = NoFault \<and>
   sampleBook\<lparr> averageRating := 4, ratingCount := 1, b_updatedAt := 100 \<rparr> \<in>
     set (books (emptyStore\<lparr> reviews := [storedReview review1 ''Published'' 100],
                   books := [sampleBook\<lparr> averageRating := 4, ratingCount := 1,
                                         b_updatedAt := 100 \<rparr>] \<rparr>)) \<and>
   b_id (sampleBook\<lparr> averageRating := 4, ratingCount := 1, b_updatedAt := 100 \<rparr>) = bookA \<and>
   averageRating (sampleBook\<lparr> averageRating := 4, ratingCount := 1, b_updatedAt := 100 \<rparr>) =
     sum_list (map rating [storedReview review1 ''Published'' 100]) / of_nat 1"
proof -
  let ?r = "storedReview review1 ''Published'' 100"
  let ?bk = "sampleBook\<lparr> averageRating := 4, ratingCount := 1, b_updatedAt := 100 \<rparr>"
  let ?d' = "emptyStore\<lparr> reviews := [?r], books := [?bk] \<rparr>"
  have c: "createReview onlineEnv bookReviewBody emptyStore = (Response 201 (Item (Some ?r) None), ?d')"
    by code_simp
  have t: "book ?r = Some bookA" by (simp add: storedReview_def)
  have p: "status ?r = ''Published''" by (simp add: storedReview_def)
  have n: "bookFault onlineEnv = NoFault" by (simp add: onlineEnv_def)
  have m: "?bk \<in> set (books ?d')" by simp
  have i: "b_id ?bk = bookA" by (simp add: sampleBook_def)
  have f: "filter (\<lambda>x. book x = Some bookA \<and> status x = ''Published'') (reviews ?d') = [?r]"
    by (simp add: storedReview_def)
  from create_leaves_the_book_rating_consistent[OF c t p n m i]
  have "averageRating ?bk = sum_list (map rating [?r]) / of_nat 1"
    unfolding f by simp
  with c t p n m i show ?thesis by (intro conjI)
qed

subsection \<open>Targets of a created review\<close>




subsection \<open>The store is unreachable\<close>

text \<open>
  C8. While the store is not connected, every list operation answers with status 200, an
  empty \<open>data\<close>, \<open>count\<close> 0 and the message that says so, and every mutation answers with
  status 503 and an error, leaving the store as it is.
\<close>

theorem unreachable_store_degrades_lists_and_fails_mutations:
  assumes "readyState e \<noteq> 1"
  shows
    "getAllReviews RegExp (readyState e) q rs =
       Response 200 (Page 0 \<lparr> p_current = Finite 1, p_total = Finite 0, p_count = 0 \<rparr> []
         (Some ''Database not connected - returning empty results'')) \<and>
     getReviewsByBook (readyState e) i rs =
       Response 200 (Listing 0 [] (Some ''Database not connected - returning empty results'')) \<and>
     getReviewsByAuthor (readyState e) i rs =
       Response 200 (Listing 0 [] (Some ''Database not connected - returning empty results'')) \<and>
     getAllBooks findBooks (readyState e) q =
       Response 200 (Page 0 \<lparr> p_current = Finite 1, p_total = Finite 0, p_count = 0 \<rparr> []
         (Some ''Database not connected - returning empty results'')) \<and>
     getBooksByAuthor findBooks (readyState e) i =
       Response 200 (Listing 0 [] (Some ''Database not connected - returning empty results'')) \<and>
     getAllAuthors findAuthors (readyState e) q =
       Response 200 (Page 0 \<lparr> p_current = Finite 1, p_total = Finite 0, p_count = 0 \<rparr> []
         (Some ''Database not connected - returning empty results'')) \<and>
     getAuthorsByGenre findAuthors (readyState e) genre =
       Response 200 (Listing 0 [] (Some ''Database not connected - returning empty results'')) \<and>
     getAllPublishers findPublishers (readyState e) q =
       Response 200 (Page 0 \<lparr> p_current = Finite 1, p_total = Finite 0, p_count = 0 \<rparr> []
         (Some ''Database not connected - returning empty results'')) \<and>
     getPublishersByGenre findPublishers (readyState e) genre =
       Response 200 (Listing 0 [] (Some ''Database not connected - returning empty results'')) \<and>
     getPublisherBooks findBooks (readyState e) i =
       Response 200 (Listing 0 [] (Some ''Database not connected - returning empty results'')) \<and>
     createReview e body d =
       (Response 503 (Failure ''Database not connected - cannot create review''), d) \<and>
     updateReview e i body d =
       (Response 503 (Failure ''Database not connected - cannot update review''), d) \<and>
     deleteReview e i d =
       (Response 503 (Failure ''Database not connected - cannot delete review''), d) \<and>
     markReviewHelpful e i d = (Response 503 (Failure ''Database not connected''), d) \<and>
     createBook createB (readyState e) bodyB =
       Response 503 (Failure ''Database not connected - cannot create book'') \<and>
     updateBook findB updateB (readyState e) i bodyB =
       Response 503 (Failure ''Database not connected - cannot update book'') \<and>
     deleteBook findB deleteB (readyState e) i =
       Response 503 (Failure ''Database not connected - cannot delete book'') \<and>
     createAuthor createA (readyState e) bodyA =
       Response 503 (Failure ''Database not connected - cannot create author'') \<and>
     updateAuthor findA updateA (readyState e) i bodyA =
       Response 503 (Failure ''Database not connected - cannot update author'') \<and>
     deleteAuthor findA deleteA (readyState e) i =
       Response 503 (Failure ''Database not connected - cannot delete author'') \<and>
     createPublisher createP (readyState e) bodyP =
       Response 503 (Failure ''Database not connected - cannot create publisher'') \<and>
     updatePublisher findP updateP (readyState e) i bodyP =
       Response 503 (Failure ''Database not connected - cannot update publisher'') \<and>
     deletePublisher findP deleteP (readyState e) i =
       Response 503 (Failure ''Database not connected - cannot delete publisher'')"
  using assms
  by (simp add: getAllReviews_def getReviewsByBook_def getReviewsByAuthor_def getAllBooks_def
      getBooksByAuthor_def getAllAuthors_def getAuthorsByGenre_def getAllPublishers_def
      getPublishersByGenre_def getPublisherBooks_def createReview_def updateReview_def
      deleteReview_def markReviewHelpful_def createBook_def updateBook_def deleteBook_def
      createAuthor_def updateAuthor_def deleteAuthor_def createPublisher_def
      updatePublisher_def deletePublisher_def notConnectedPage_def notConnectedListing_def)

theorem unreachable_store_degrades_lists_and_fails_mutations_witness:
  "readyState offlineEnv \<noteq> 1 \<and>
   getAllReviews noRegExp (readyState offlineEnv) pageFiveOfTwo mixedReviews =
     Response 200 (Page 0 \<lparr> p_current = Finite 1, p_total = Finite 0, p_count = 0 \<rparr> []
       (Some ''Database not connected - returning empty results'')) \<and>
   getReviewsByBook (readyState offlineEnv) bookA mixedReviews =
     Response 200 (Listing 0 [] (Some ''Database not connected - returning empty results'')) \<and>
   getAllBooks (\<lambda>query sort. Inr [sampleBook]) (readyState offlineEnv) pageFiveOfTwo =
     Response 200 (Page 0 \<lparr> p_current = Finite 1, p_total = Finite 0, p_count = 0 \<rparr> []
       (Some ''Database not connected - returning empty results'')) \<and>
   createReview offlineEnv bookReviewBody emptyStore =
     (Response 503 (Failure ''Database not connected - cannot create review''), emptyStore) \<and>
   updateReview offlineEnv bookA bookReviewBody emptyStore =
     (Response 503 (Failure ''Database not connected - cannot update review''), emptyStore) \<and>
   deleteReview offlineEnv bookA emptyStore =
     (Response 503 (Failure ''Database not connected - cannot delete review''), emptyStore) \<and>
   createBook (\<lambda>body. Inr sampleBook) (readyState offlineEnv) () =
     Response 503 (Failure ''Database not connected - cannot create book'')"
proof -
  have h: "readyState offlineEnv \<noteq> 1" by (simp add: offlineEnv_def onlineEnv_def)
  note T = unreachable_store_degrades_lists_and_fails_mutations[OF h,
      where RegExp = noRegExp and q = pageFiveOfTwo and rs = mixedReviews and i = bookA
        and body = bookReviewBody and d = emptyStore and genre = "''Fiction''"
        and findBooks = "\<lambda>query sort. Inr [sampleBook]"
        and findAuthors = "\<lambda>query sort. Inr [sampleAuthor]"
        and findPublishers = "\<lambda>query sort. Inr [()]"
        and createB = "\<lambda>body. Inr sampleBook" and bodyB = "()"
        and findB = "\<lambda>i. Inr (Some sampleBook)" and updateB = "\<lambda>i body. Inr (Some sampleBook)"
        and deleteB = "\<lambda>i. Inr ()"
        and createA = "\<lambda>body. Inr sampleAuthor" and bodyA = "()"
        and findA = "\<lambda>i. Inr (Some sampleAuthor)"
        and updateA = "\<lambda>i body. Inr (Some sampleAuthor)" and deleteA = "\<lambda>i. Inr ()"
        and createP = "\<lambda>body. Inr ()" and bodyP = "()"
        and findP = "\<lambda>i. Inr (Some ())" and updateP = "\<lambda>i body. Inr (Some ())"
        and deleteP = "\<lambda>i. Inr ()"]
  show ?thesis using h T by simp
qed

subsection \<open>The code at the inputs where it departs from the specification\<close>

text \<open>
  C1, on the code. The store is consistent: the book holds 4 and 1, the mean and the
  count of its one published review. The rating of that review is lowered to 2 through
  \<open>updateReview\<close>: the request succeeds, the only published review has rating 2, and
  the book still holds 4. Or the review is deleted through \<open>deleteReview\<close>: the request
  succeeds, no review is left, and the book still holds 4 and 1. Neither handler reaches
  a hook.
\<close>

theorem rating_is_stale_after_update_and_after_delete:
  "(let (r2, d2) = updateReview onlineEnv review1 (noBody\<lparr> req_rating := Some 2 \<rparr>) ratedStore;
        (r3, d3) = deleteReview onlineEnv review1 ratedStore
    in map averageRating (books ratedStore) = [4] \<and> map ratingCount (books ratedStore) = [1] \<and>
       r2 = Response 200
              (Item (Some ((storedReview review1 ''Published'' 100)\<lparr> rating := 2 \<rparr>)) None) \<and>
       reviews d2 = [(storedReview review1 ''Published'' 100)\<lparr> rating := 2 \<rparr>] \<and>
       map averageRating (books d2) = [4] \<and> map ratingCount (books d2) = [1] \<and>
       r3 = Response 200 (Emptied ''Review deleted successfully'') \<and> reviews d3 = [] \<and>
       map averageRating (books d3) = [4] \<and> map ratingCount (books d3) = [1])"
  by code_simp

text \<open>
  C2, on the code. The book holds 4 and 1 and has no published review left: the
  aggregation yields no group and \<open>calculateBookRating\<close> writes nothing.
\<close>

theorem recomputation_without_published_reviews_writes_nothing:
  "calculateBookRating NoFault 200 bookA (ratedStore\<lparr> reviews := [] \<rparr>) =
     Inr (ratedStore\<lparr> reviews := [] \<rparr>) \<and>
   map averageRating (books (ratedStore\<lparr> reviews := [] \<rparr>)) = [4] \<and>
   map ratingCount (books (ratedStore\<lparr> reviews := [] \<rparr>)) = [1]"
  by code_simp

text \<open>
  C5, on the code. \<open>?sortBy=price\<close>: the book and the publisher handlers sort by
  \<open>price\<close>; the review and the author handlers fall back to \<open>createdAt\<close>, ascending,
  where their default order is descending.
\<close>

theorem unknown_sortBy_is_the_sort_field_of_books_and_publishers:
  "bookSortOptions sortByPrice = (''price'', 1) \<and>
   publisherSortOptions sortByPrice = (''price'', 1) \<and>
   reviewSortOptions sortByPrice = (''createdAt'', 1) \<and>
   authorSortOptions sortByPrice = (''createdAt'', 1) \<and>
   reviewSortOptions (\<lambda>k. None) = (''createdAt'', - 1) \<and>
   authorSortOptions (\<lambda>k. None) = (''createdAt'', - 1)"
  by code_simp

text \<open>
  C7, on the code. \<open>?limit=500\<close> over 101 reviews: one page of 101 items.
\<close>

theorem limit_above_100_yields_a_longer_page:
  "getAllReviews noRegExp 1 limitFiveHundred (manyReviews 101) =
     Response 200
       (Page 101 \<lparr> p_current = Finite 1, p_total = Finite 1, p_count = 101 \<rparr>
          (manyReviews 101) None)"
  by code_simp

end
